theory Spec2Isabelle
  imports Complex_Main
begin

section \<open>JavaScript values and exceptions\<close>

text \<open>
  The route handlers of the admin dashboard receive and build JSON. A value is one of the
  JavaScript values that can be parsed from JSON or written in an object literal;
  \<open>JUndefined\<close> is the value of a missing property. An object is the list of its
  properties in insertion order (keys are distinct after \<open>JSON.parse\<close> and in every
  object literal of the code).
\<close>

datatype jsval =
    JUndefined
  | JNull
  | JBool bool
  | JNum real
  | JStr string
  | JArr "jsval list"
  | JObj "(string \<times> jsval) list"

text \<open>
  A thrown value is either an \<open>Error\<close> carrying a message or something else; the catch
  blocks of the code read it with
  \<^verbatim>\<open>error instanceof Error ? error.message : 'Unknown error'\<close>.
\<close>

datatype js_exn = Error string | NonError

definition error_message :: "string \<Rightarrow> js_exn \<Rightarrow> string" where
  "error_message fallback e = (case e of Error m \<Rightarrow> m | NonError \<Rightarrow> fallback)"

text \<open>Truthiness, \<open>a || b\<close>, and property access \<open>v.k\<close> (a TypeError on null and undefined).
  The property names read by the code (\<open>userId\<close>, \<open>recentTransactions\<close>, \<open>counts\<close>, \<open>id\<close>, ...)
  are not properties of the built-in prototypes, so a primitive or an array yields undefined.\<close>

fun truthy :: "jsval \<Rightarrow> bool" where
  "truthy JUndefined = False"
| "truthy JNull = False"
| "truthy (JBool b) = b"
| "truthy (JNum r) = (r \<noteq> 0)"
| "truthy (JStr s) = (s \<noteq> [])"
| "truthy (JArr xs) = True"
| "truthy (JObj fs) = True"

definition or_else :: "jsval \<Rightarrow> jsval \<Rightarrow> jsval" where
  "or_else a b = (if truthy a then a else b)"

definition own_prop :: "(string \<times> jsval) list \<Rightarrow> string \<Rightarrow> jsval" where
  "own_prop fs k = (case map_of fs k of None \<Rightarrow> JUndefined | Some v \<Rightarrow> v)"

definition quoted :: "string \<Rightarrow> string" where
  "quoted k = [CHR 0x27] @ k @ [CHR 0x27]"

fun get_prop :: "jsval \<Rightarrow> string \<Rightarrow> js_exn + jsval" where
  "get_prop JUndefined k =
     Inl (Error (''Cannot read properties of undefined (reading '' @ quoted k @ '')''))"
| "get_prop JNull k =
     Inl (Error (''Cannot read properties of null (reading '' @ quoted k @ '')''))"
| "get_prop (JObj fs) k = Inr (own_prop fs k)"
| "get_prop v k = Inr JUndefined"

text \<open>Decimal rendering of a natural number, as a template literal renders a status code or
  a row count.\<close>

definition digit_char :: "nat \<Rightarrow> char" where
  "digit_char d = ''0123456789'' ! d"

function show_nat :: "nat \<Rightarrow> string" where
  "show_nat n = (if n < 10 then [digit_char n] else show_nat (n div 10) @ [digit_char (n mod 10)])"
  by pat_completeness auto
termination
  by (relation "measure id") auto

declare show_nat.simps [simp del]

section \<open>Effects: state, exceptions and the external platform\<close>

text \<open>
  An asynchronous function is a state transformer that either returns a value or throws.
  \<open>try_catch\<close> is \<^verbatim>\<open>try { ... } catch (e) { ... }\<close>.
\<close>

type_synonym ('a, 's) eff = "'s \<Rightarrow> (js_exn + 'a) \<times> 's"

definition eff_return :: "'a \<Rightarrow> ('a, 's) eff" where
  "eff_return x = (\<lambda>s. (Inr x, s))"

definition eff_throw :: "js_exn \<Rightarrow> ('a, 's) eff" where
  "eff_throw e = (\<lambda>s. (Inl e, s))"

definition eff_bind :: "('a, 's) eff \<Rightarrow> ('a \<Rightarrow> ('b, 's) eff) \<Rightarrow> ('b, 's) eff" where
  "eff_bind m f = (\<lambda>s. case m s of (Inl e, s') \<Rightarrow> (Inl e, s') | (Inr x, s') \<Rightarrow> f x s')"

definition try_catch :: "('a, 's) eff \<Rightarrow> (js_exn \<Rightarrow> ('a, 's) eff) \<Rightarrow> ('a, 's) eff" where
  "try_catch m h = (\<lambda>s. case m s of (Inl e, s') \<Rightarrow> h e s' | (Inr x, s') \<Rightarrow> (Inr x, s'))"

definition eff_lift :: "js_exn + 'a \<Rightarrow> ('a, 's) eff" where
  "eff_lift r = (\<lambda>s. (r, s))"

text \<open>
  What the code calls outside the repository: the \<open>pg\<close> pool, \<open>fetch\<close>, the clock,
  \<open>crypto.randomUUID\<close>, the \<open>jose\<close> signer, and two built-in renderings. Each is a
  parameter; \<open>'w\<close> is the state of the outside world (database, network, clock).
\<close>

record pg_result =
  pg_rowCount :: "nat option"

record http_response =
  status :: nat
  resp_text :: "js_exn + string"
  resp_json :: "js_exn + jsval"

definition ok :: "http_response \<Rightarrow> bool" where
  "ok r = (200 \<le> status r \<and> status r \<le> 299)"

record fetch_request =
  fr_url :: string
  fr_method :: string
  fr_headers :: "(string \<times> string) list"
  fr_timeout :: "nat option"

record sign_jwt =
  jwt_payload :: jsval
  jwt_protectedHeader :: jsval
  jwt_expirationTime :: string

record 'w platform =
  pool_query :: "string \<Rightarrow> jsval list option \<Rightarrow> 'w \<Rightarrow> (js_exn + pg_result) \<times> 'w"
  fetch :: "fetch_request \<Rightarrow> 'w \<Rightarrow> (js_exn + http_response) \<times> 'w"
  Date_now :: "'w \<Rightarrow> int \<times> 'w"
  randomUUID :: "'w \<Rightarrow> string \<times> 'w"
  jwt_sign :: "sign_jwt \<Rightarrow> string \<Rightarrow> 'w \<Rightarrow> (js_exn + string) \<times> 'w"
  toISOString :: "int \<Rightarrow> string"
  Number_toString :: "real \<Rightarrow> string"

text \<open>Every call that may fail is recorded, with its outcome, in a trace kept beside the world.\<close>

datatype call =
    Query string "jsval list option" "js_exn + pg_result"
  | Fetch fetch_request "js_exn + http_response"
  | ReadText "js_exn + string"
  | ReadJson "js_exn + jsval"
  | RequestJson "js_exn + jsval"
  | Sign sign_jwt string "js_exn + string"

type_synonym 'w st = "'w \<times> call list"

definition now :: "'w platform \<Rightarrow> (int, 'w st) eff" where
  "now P = (\<lambda>(w, tr). case Date_now P w of (t, w') \<Rightarrow> (Inr t, (w', tr)))"

definition new_uuid :: "'w platform \<Rightarrow> (string, 'w st) eff" where
  "new_uuid P = (\<lambda>(w, tr). case randomUUID P w of (u, w') \<Rightarrow> (Inr u, (w', tr)))"

definition pool_dot_query :: "'w platform \<Rightarrow> string \<Rightarrow> jsval list option \<Rightarrow> (pg_result, 'w st) eff" where
  "pool_dot_query P sql params =
     (\<lambda>(w, tr). case pool_query P sql params w of (r, w') \<Rightarrow> (r, (w', tr @ [Query sql params r])))"

definition do_fetch :: "'w platform \<Rightarrow> fetch_request \<Rightarrow> (http_response, 'w st) eff" where
  "do_fetch P rq = (\<lambda>(w, tr). case fetch P rq w of (r, w') \<Rightarrow> (r, (w', tr @ [Fetch rq r])))"

definition read_text :: "http_response \<Rightarrow> (string, 'w st) eff" where
  "read_text r = (\<lambda>(w, tr). (resp_text r, (w, tr @ [ReadText (resp_text r)])))"

definition read_json :: "http_response \<Rightarrow> (jsval, 'w st) eff" where
  "read_json r = (\<lambda>(w, tr). (resp_json r, (w, tr @ [ReadJson (resp_json r)])))"

definition do_sign :: "'w platform \<Rightarrow> sign_jwt \<Rightarrow> string \<Rightarrow> (string, 'w st) eff" where
  "do_sign P b secret =
     (\<lambda>(w, tr). case jwt_sign P b secret w of (r, w') \<Rightarrow> (r, (w', tr @ [Sign b secret r])))"

text \<open>\<^verbatim>\<open>process.env.X || 'default'\<close>: an unset or empty variable gives the default.\<close>

definition env_or :: "(string \<rightharpoonup> string) \<Rightarrow> string \<Rightarrow> string \<Rightarrow> string" where
  "env_or env k d = (case env k of None \<Rightarrow> d | Some v \<Rightarrow> if v = [] then d else v)"

section \<open>The database library (src/lib/db.ts)\<close>

record pool_config =
  connectionString :: "string option"
  max_clients :: nat
  idleTimeoutMillis :: nat
  connectionTimeoutMillis :: nat

definition pool :: "(string \<rightharpoonup> string) \<Rightarrow> pool_config" where
  "pool env = \<lparr> connectionString = env ''DATABASE_URL'',
                max_clients = 20,
                idleTimeoutMillis = 30000,
                connectionTimeoutMillis = 2000 \<rparr>"

text \<open>\<open>query\<close> reads the clock before and after the statement (for the logged duration) and
  rethrows what the pool throws.\<close>

definition query :: "'w platform \<Rightarrow> string \<Rightarrow> jsval list option \<Rightarrow> (pg_result, 'w st) eff" where
  "query P sql params =
     eff_bind (now P) (\<lambda>start.
       try_catch
         (eff_bind (pool_dot_query P sql params) (\<lambda>res.
          eff_bind (now P) (\<lambda>finish.
          eff_return res)))
         (\<lambda>error. eff_throw error))"

record clear_result =
  success :: bool
  rowCount :: nat
  error :: "string option"

definition or_zero :: "nat option \<Rightarrow> nat" where
  "or_zero c = (case c of None \<Rightarrow> 0 | Some n \<Rightarrow> n)"

definition clearTable :: "'w platform \<Rightarrow> string \<Rightarrow> (clear_result, 'w st) eff" where
  "clearTable P tableName =
     try_catch
       (eff_bind (query P (''DELETE FROM '' @ tableName) None) (\<lambda>result.
          eff_return \<lparr> success = True, rowCount = or_zero (pg_rowCount result), error = None \<rparr>))
       (\<lambda>error.
          eff_return \<lparr> success = False, rowCount = 0,
                       error = Some (error_message ''Unknown error'' error) \<rparr>)"

text \<open>The two return statements of \<open>clearTable\<close>, as a function of the outcome of the statement.\<close>

definition clearTable_result :: "js_exn + pg_result \<Rightarrow> clear_result" where
  "clearTable_result out =
     (case out of
        Inr res \<Rightarrow> \<lparr> success = True, rowCount = or_zero (pg_rowCount res), error = None \<rparr>
      | Inl e \<Rightarrow> \<lparr> success = False, rowCount = 0, error = Some (error_message ''Unknown error'' e) \<rparr>)"

text \<open>
  The result object of \<open>clearTables\<close> starts as the literal \<open>{}\<close> and is filled by
  \<^verbatim>\<open>results[tableName] = ...\<close>. Its own properties are a map from names. The name
  \<open>__proto__\<close> is not added as an own property by an assignment: it is the accessor inherited
  from \<open>Object.prototype\<close>, and assigning an object to it replaces the prototype of \<open>results\<close>.
  Every other name is added (or overwritten) as an own property, since what is inherited from
  \<open>Object.prototype\<close> or from a clear result are writable data properties.
\<close>

record results_object =
  own_entries :: "string \<rightharpoonup> clear_result"
  prototype :: "clear_result option"

definition empty_object :: results_object where
  "empty_object = \<lparr> own_entries = Map.empty, prototype = None \<rparr>"

definition assign_entry :: "results_object \<Rightarrow> string \<Rightarrow> clear_result \<Rightarrow> results_object" where
  "assign_entry results k v =
     (if k = ''__proto__'' then results \<lparr> prototype := Some v \<rparr>
      else results \<lparr> own_entries := (own_entries results)(k \<mapsto> v) \<rparr>)"

fun clearTables_loop ::
  "'w platform \<Rightarrow> results_object \<Rightarrow> string list \<Rightarrow> (results_object, 'w st) eff" where
  "clearTables_loop P results [] = eff_return results"
| "clearTables_loop P results (tableName # rest) =
     eff_bind (clearTable P tableName) (\<lambda>r.
       clearTables_loop P (assign_entry results tableName r) rest)"

definition clearTables :: "'w platform \<Rightarrow> string list \<Rightarrow> (results_object, 'w st) eff" where
  "clearTables P tableNames = clearTables_loop P empty_object tableNames"

section \<open>Requests, responses and the admin password gate\<close>

record next_request =
  req_headers :: "string \<rightharpoonup> string"
  req_url :: string
  req_searchParams :: "string \<rightharpoonup> string"
  req_json :: "js_exn + jsval"

record next_response =
  http_status :: nat
  json_body :: jsval

text \<open>
  \<^verbatim>\<open>NextResponse.json(body, { status })\<close> builds the response through the \<open>Response\<close>
  constructor of the platform, which throws a RangeError for a status outside 200 to 599 and
  a TypeError for a status that allows no body (204, 205, 304; also 101 and 103, below 200).
  The status is 200 when none is given. \<open>json_response\<close> is the response built; a property
  whose value is undefined is left out when the body is serialised.
\<close>

definition json_response :: "jsval \<Rightarrow> nat \<Rightarrow> next_response" where
  "json_response b s = \<lparr> http_status = s, json_body = b \<rparr>"

definition body_status :: "nat \<Rightarrow> bool" where
  "body_status s = (200 \<le> s \<and> s \<le> 599 \<and> s \<noteq> 204 \<and> s \<noteq> 205 \<and> s \<noteq> 304)"

definition status_error :: "nat \<Rightarrow> js_exn" where
  "status_error s =
     (if s < 200 \<or> 599 < s then
        Error (''init['' @ [CHR 0x22] @ ''status'' @ [CHR 0x22]
                 @ ''] must be in the range of 200 to 599, inclusive.'')
      else Error (''Response constructor: Invalid response status code '' @ show_nat s))"

definition NextResponse_json :: "jsval \<Rightarrow> nat \<Rightarrow> js_exn + next_response" where
  "NextResponse_json b s = (if body_status s then Inr (json_response b s) else Inl (status_error s))"

definition request_json :: "next_request \<Rightarrow> (jsval, 'w st) eff" where
  "request_json request = (\<lambda>(w, tr). (req_json request, (w, tr @ [RequestJson (req_json request)])))"

text \<open>\<^verbatim>\<open>!adminPassword || adminPassword !== expectedPassword\<close>, for a header that is
  \<open>null\<close> when absent.\<close>

definition unauthorized :: "string option \<Rightarrow> string \<Rightarrow> bool" where
  "unauthorized adminPassword expectedPassword =
     (case adminPassword of None \<Rightarrow> True | Some p \<Rightarrow> p = [] \<or> p \<noteq> expectedPassword)"

definition expectedPassword :: "(string \<rightharpoonup> string) \<Rightarrow> string" where
  "expectedPassword env = env_or env ''NEXT_PUBLIC_ADMIN_PASSWORD'' ''admin123''"

definition unauthorized_response :: next_response where
  "unauthorized_response =
     json_response (JObj [(''success'', JBool False), (''error'', JStr ''Unauthorized'')]) 401"

definition failure_response :: "string \<Rightarrow> jsval \<Rightarrow> nat \<Rightarrow> next_response" where
  "failure_response err details s =
     json_response (JObj [(''success'', JBool False), (''error'', JStr err), (''details'', details)]) s"

text \<open>The answers most handlers share, as they are built: through \<open>NextResponse.json\<close>.\<close>

definition respond_unauthorized :: "js_exn + next_response" where
  "respond_unauthorized =
     NextResponse_json (JObj [(''success'', JBool False), (''error'', JStr ''Unauthorized'')]) 401"

definition respond_failure :: "string \<Rightarrow> jsval \<Rightarrow> nat \<Rightarrow> js_exn + next_response" where
  "respond_failure err details s =
     NextResponse_json (JObj [(''success'', JBool False), (''error'', JStr err), (''details'', details)]) s"

definition timestamp :: "'w platform \<Rightarrow> (jsval, 'w st) eff" where
  "timestamp P = eff_bind (now P) (\<lambda>t. eff_return (JStr (toISOString P t)))"

section \<open>The table-clearing routes\<close>

text \<open>
  The routes \<open>anomalies/clear\<close>, \<open>transactions/clear\<close>, \<open>transaction-items/clear\<close> and
  \<open>submissions/clear\<close> are the same handler up to the table name and three strings,
  collected here; each \<open>DELETE\<close> below is that handler with the strings of its source file.
\<close>

record clear_strings =
  cs_table :: string
  cs_cleared :: string
  cs_failed :: string
  cs_caught :: string

definition table_clear_try ::
  "clear_strings \<Rightarrow> 'w platform \<Rightarrow> (string \<rightharpoonup> string) \<Rightarrow> next_request \<Rightarrow> (next_response, 'w st) eff" where
  "table_clear_try cs P env request =
     (let adminPassword = req_headers request ''admin-password'' in
      if unauthorized adminPassword (expectedPassword env) then eff_lift respond_unauthorized
      else
        eff_bind (clearTable P (cs_table cs)) (\<lambda>result.
          if success result then
            eff_bind (timestamp P) (\<lambda>ts.
              eff_lift (NextResponse_json (JObj
                [(''success'', JBool True),
                 (''message'', JStr (cs_cleared cs @ '' cleared successfully. Removed ''
                      @ show_nat (rowCount result) @ '' rows.'')),
                 (''timestamp'', ts),
                 (''rowCount'', JNum (real (rowCount result)))]) 200))
          else
            eff_lift (respond_failure (cs_failed cs)
              (case error result of None \<Rightarrow> JUndefined | Some m \<Rightarrow> JStr m) 500)))"

definition table_clear_DELETE ::
  "clear_strings \<Rightarrow> 'w platform \<Rightarrow> (string \<rightharpoonup> string) \<Rightarrow> next_request \<Rightarrow> (next_response, 'w st) eff" where
  "table_clear_DELETE cs P env request =
     try_catch (table_clear_try cs P env request)
       (\<lambda>error. eff_lift (respond_failure (cs_caught cs)
                   (JStr (error_message ''Unknown error'' error)) 500))"

definition anomalies_strings :: clear_strings where
  "anomalies_strings = \<lparr> cs_table = ''anomaly_flags'', cs_cleared = ''Anomaly flags'',
     cs_failed = ''Failed to clear anomaly flags'', cs_caught = ''Failed to clear anomalies'' \<rparr>"

definition transactions_strings :: clear_strings where
  "transactions_strings = \<lparr> cs_table = ''transactions'', cs_cleared = ''Transactions'',
     cs_failed = ''Failed to clear transactions'', cs_caught = ''Failed to clear transactions'' \<rparr>"

definition transaction_items_strings :: clear_strings where
  "transaction_items_strings = \<lparr> cs_table = ''transaction_items'', cs_cleared = ''Transaction items'',
     cs_failed = ''Failed to clear transaction items'',
     cs_caught = ''Failed to clear transaction items'' \<rparr>"

definition submissions_strings :: clear_strings where
  "submissions_strings = \<lparr> cs_table = ''submissions'', cs_cleared = ''Submissions'',
     cs_failed = ''Failed to clear submissions'', cs_caught = ''Failed to clear submissions'' \<rparr>"

definition anomalies_clear_DELETE ::
  "'w platform \<Rightarrow> (string \<rightharpoonup> string) \<Rightarrow> next_request \<Rightarrow> (next_response, 'w st) eff" where
  "anomalies_clear_DELETE = table_clear_DELETE anomalies_strings"

definition transactions_clear_DELETE ::
  "'w platform \<Rightarrow> (string \<rightharpoonup> string) \<Rightarrow> next_request \<Rightarrow> (next_response, 'w st) eff" where
  "transactions_clear_DELETE = table_clear_DELETE transactions_strings"

definition transaction_items_clear_DELETE ::
  "'w platform \<Rightarrow> (string \<rightharpoonup> string) \<Rightarrow> next_request \<Rightarrow> (next_response, 'w st) eff" where
  "transaction_items_clear_DELETE = table_clear_DELETE transaction_items_strings"

definition submissions_clear_DELETE ::
  "'w platform \<Rightarrow> (string \<rightharpoonup> string) \<Rightarrow> next_request \<Rightarrow> (next_response, 'w st) eff" where
  "submissions_clear_DELETE = table_clear_DELETE submissions_strings"

text \<open>\<open>integrations/clear\<close> issues its own parameterised statement through \<open>query\<close>; the row
  count is the pool's, \<open>null\<close> included.\<close>

definition rowCount_json :: "nat option \<Rightarrow> jsval" where
  "rowCount_json c = (case c of None \<Rightarrow> JNull | Some n \<Rightarrow> JNum (real n))"

definition rowCount_string :: "nat option \<Rightarrow> string" where
  "rowCount_string c = (case c of None \<Rightarrow> ''null'' | Some n \<Rightarrow> show_nat n)"

definition integrations_clear_try ::
  "'w platform \<Rightarrow> (string \<rightharpoonup> string) \<Rightarrow> next_request \<Rightarrow> (next_response, 'w st) eff" where
  "integrations_clear_try P env request =
     (let adminPassword = req_headers request ''admin-password'' in
      if unauthorized adminPassword (expectedPassword env) then eff_lift respond_unauthorized
      else
        try_catch
          (eff_bind (query P ''DELETE FROM integrations WHERE type = $1'' (Some [JStr ''shopify''])) (\<lambda>result.
           eff_bind (timestamp P) (\<lambda>ts.
             eff_lift (NextResponse_json (JObj
               [(''success'', JBool True),
                (''message'', JStr (''Shopify integrations cleared successfully. Removed ''
                     @ rowCount_string (pg_rowCount result) @ '' rows.'')),
                (''timestamp'', ts),
                (''rowCount'', rowCount_json (pg_rowCount result))]) 200))))
          (\<lambda>dbError. eff_lift (respond_failure ''Failed to clear Shopify integrations''
                        (JStr (error_message ''Unknown database error'' dbError)) 500)))"

definition integrations_clear_DELETE ::
  "'w platform \<Rightarrow> (string \<rightharpoonup> string) \<Rightarrow> next_request \<Rightarrow> (next_response, 'w st) eff" where
  "integrations_clear_DELETE P env request =
     try_catch (integrations_clear_try P env request)
       (\<lambda>error. eff_lift (respond_failure ''Failed to clear integrations''
                   (JStr (error_message ''Unknown error'' error)) 500))"

text \<open>\<open>vectordb/clear\<close> forwards to the upstream API.\<close>

definition vectordb_clear_try ::
  "'w platform \<Rightarrow> (string \<rightharpoonup> string) \<Rightarrow> next_request \<Rightarrow> (next_response, 'w st) eff" where
  "vectordb_clear_try P env request =
     (let adminPassword = req_headers request ''admin-password'' in
      if unauthorized adminPassword (expectedPassword env) then eff_lift respond_unauthorized
      else
        let coolerApiUrl = env_or env ''NEXT_PUBLIC_API_URL'' ''http://localhost:8888'';
            adminToken = ''Bearit01!'' in
        try_catch
          (eff_bind (do_fetch P \<lparr> fr_url = coolerApiUrl @ ''/admin/vector-db/clear-all'',
                                  fr_method = ''DELETE'',
                                  fr_headers = [(''Authorization'', ''Bearer '' @ adminToken),
                                                (''Content-Type'', ''application/json'')],
                                  fr_timeout = Some 10000 \<rparr>) (\<lambda>response.
             if ok response then
               eff_bind (read_json response) (\<lambda>result.
               eff_bind (timestamp P) (\<lambda>ts.
                 eff_lift (NextResponse_json (JObj
                   [(''success'', JBool True),
                    (''message'', JStr ''VectorDB cleared successfully''),
                    (''timestamp'', ts),
                    (''apiResponse'', result)]) 200)))
             else
               eff_bind (read_text response) (\<lambda>errorText.
                 eff_lift (respond_failure (''API call failed: '' @ show_nat (status response))
                   (JStr errorText) (status response)))))
          (\<lambda>fetchError. eff_lift (respond_failure ''Failed to call Cooler API''
                           (JStr (error_message ''Unknown error'' fetchError)) 500)))"

definition vectordb_clear_DELETE ::
  "'w platform \<Rightarrow> (string \<rightharpoonup> string) \<Rightarrow> next_request \<Rightarrow> (next_response, 'w st) eff" where
  "vectordb_clear_DELETE P env request =
     try_catch (vectordb_clear_try P env request)
       (\<lambda>error. eff_lift (respond_failure ''Failed to clear VectorDB''
                   (JStr (error_message ''Unknown error'' error)) 500))"

section \<open>The clear-database route\<close>

text \<open>
  \<open>clear-database\<close> calls the six clearing routes of this application over HTTP, one after
  the other. \<open>results\<close> is the object literal of the source, an entry per target in the order
  written. The six blocks of the source differ in the key and the path only: \<open>clear_step\<close> is
  one block.
\<close>

record clear_entry =
  ce_success :: bool
  ce_error :: "string option"

definition initial_results :: "(string \<times> clear_entry) list" where
  "initial_results =
     [(''vectordb'', \<lparr> ce_success = False, ce_error = None \<rparr>),
      (''transactions'', \<lparr> ce_success = False, ce_error = None \<rparr>),
      (''transactionItems'', \<lparr> ce_success = False, ce_error = None \<rparr>),
      (''submissions'', \<lparr> ce_success = False, ce_error = None \<rparr>),
      (''anomalies'', \<lparr> ce_success = False, ce_error = None \<rparr>),
      (''integrations'', \<lparr> ce_success = False, ce_error = None \<rparr>)]"

definition set_success :: "string \<Rightarrow> (string \<times> clear_entry) list \<Rightarrow> (string \<times> clear_entry) list" where
  "set_success key results =
     map (\<lambda>(k, e). if k = key then (k, e\<lparr> ce_success := True \<rparr>) else (k, e)) results"

definition set_error :: "string \<Rightarrow> string \<Rightarrow> (string \<times> clear_entry) list \<Rightarrow> (string \<times> clear_entry) list" where
  "set_error key msg results =
     map (\<lambda>(k, e). if k = key then (k, e\<lparr> ce_error := Some msg \<rparr>) else (k, e)) results"

text \<open>\<^verbatim>\<open>s.replace(pattern, replacement)\<close> with a string pattern: the first occurrence only.\<close>

fun replace_first :: "string \<Rightarrow> string \<Rightarrow> string \<Rightarrow> string" where
  "replace_first [] pat rep = (if pat = [] then rep else [])"
| "replace_first (c # cs) pat rep =
     (if take (length pat) (c # cs) = pat then rep @ drop (length pat) (c # cs)
      else c # replace_first cs pat rep)"

definition clear_request :: "string \<Rightarrow> string \<Rightarrow> string \<Rightarrow> fetch_request" where
  "clear_request baseUrl path adminPassword =
     \<lparr> fr_url = baseUrl @ path, fr_method = ''DELETE'',
       fr_headers = [(''admin-password'', adminPassword), (''Content-Type'', ''application/json'')],
       fr_timeout = Some 10000 \<rparr>"

definition clear_step ::
  "'w platform \<Rightarrow> string \<Rightarrow> string \<Rightarrow> string \<Rightarrow> string \<Rightarrow> (string \<times> clear_entry) list
     \<Rightarrow> ((string \<times> clear_entry) list, 'w st) eff" where
  "clear_step P baseUrl adminPassword key path results =
     try_catch
       (eff_bind (do_fetch P (clear_request baseUrl path adminPassword)) (\<lambda>response.
          if ok response then eff_return (set_success key results)
          else
            eff_bind (read_text response) (\<lambda>errorText.
              eff_return (set_error key (show_nat (status response) @ '': '' @ errorText) results))))
       (\<lambda>error. eff_return (set_error key (error_message ''Unknown error'' error) results))"

definition results_json :: "(string \<times> clear_entry) list \<Rightarrow> jsval" where
  "results_json results =
     JObj (map (\<lambda>(k, e). (k, JObj [(''success'', JBool (ce_success e)),
                                     (''error'', case ce_error e of None \<Rightarrow> JNull | Some m \<Rightarrow> JStr m)]))
            results)"

definition summary_body :: "(string \<times> clear_entry) list \<Rightarrow> jsval" where
  "summary_body results =
     (let successCount = length (filter (\<lambda>r. ce_success r) (map snd results));
          totalCount = length (map fst results);
          overallSuccess = (successCount = totalCount);
          message =
            (if overallSuccess
             then ''Successfully cleared '' @ show_nat successCount @ ''/'' @ show_nat totalCount
                    @ '' database tables''
             else ''Cleared '' @ show_nat successCount @ ''/'' @ show_nat totalCount
                    @ '' database tables with some errors'')
      in JObj
           [(''success'', JBool overallSuccess),
            (''message'', JStr message),
            (''results'', results_json results),
            (''summary'', JObj [(''cleared'', JNum (real successCount)),
                                (''total'', JNum (real totalCount)),
                                (''errors'', JNum (real totalCount - real successCount))])])"

definition summary_response :: "(string \<times> clear_entry) list \<Rightarrow> next_response" where
  "summary_response results = json_response (summary_body results) 200"

definition respond_summary :: "(string \<times> clear_entry) list \<Rightarrow> js_exn + next_response" where
  "respond_summary results = NextResponse_json (summary_body results) 200"

text \<open>The header as forwarded to the six routes; past the gate it is present.\<close>

definition header_value :: "string option \<Rightarrow> string" where
  "header_value h = (case h of None \<Rightarrow> [] | Some v \<Rightarrow> v)"

definition clear_database_try ::
  "'w platform \<Rightarrow> (string \<rightharpoonup> string) \<Rightarrow> next_request \<Rightarrow> (next_response, 'w st) eff" where
  "clear_database_try P env request =
     (let adminPassword = req_headers request ''admin-password'' in
      if unauthorized adminPassword (expectedPassword env) then eff_lift respond_unauthorized
      else
        let baseUrl = replace_first (req_url request) ''/api/clear-database'' [];
            pw = header_value adminPassword in
        eff_bind (clear_step P baseUrl pw ''vectordb'' ''/api/vectordb/clear'' initial_results) (\<lambda>r1.
        eff_bind (clear_step P baseUrl pw ''transactions'' ''/api/transactions/clear'' r1) (\<lambda>r2.
        eff_bind (clear_step P baseUrl pw ''transactionItems'' ''/api/transaction-items/clear'' r2) (\<lambda>r3.
        eff_bind (clear_step P baseUrl pw ''submissions'' ''/api/submissions/clear'' r3) (\<lambda>r4.
        eff_bind (clear_step P baseUrl pw ''anomalies'' ''/api/anomalies/clear'' r4) (\<lambda>r5.
        eff_bind (clear_step P baseUrl pw ''integrations'' ''/api/integrations/clear'' r5) (\<lambda>results.
          eff_lift (respond_summary results))))))))"

definition clear_database_POST ::
  "'w platform \<Rightarrow> (string \<rightharpoonup> string) \<Rightarrow> next_request \<Rightarrow> (next_response, 'w st) eff" where
  "clear_database_POST P env request =
     try_catch (clear_database_try P env request)
       (\<lambda>error. eff_lift (respond_failure ''Failed to clear database''
                   (JStr (error_message ''Unknown error'' error)) 500))"

text \<open>What one block leaves behind: whether its request succeeded (a response with an ok
  status), the calls it made, and the requests of the six blocks in the order of the source.\<close>

definition fetch_succeeded :: "js_exn + http_response \<Rightarrow> bool" where
  "fetch_succeeded out = (case out of Inl e \<Rightarrow> False | Inr r \<Rightarrow> ok r)"

definition step_calls :: "fetch_request \<Rightarrow> js_exn + http_response \<Rightarrow> call list" where
  "step_calls rq out =
     Fetch rq out # (case out of Inl e \<Rightarrow> [] | Inr r \<Rightarrow> if ok r then [] else [ReadText (resp_text r)])"

definition step_message :: "js_exn + http_response \<Rightarrow> string" where
  "step_message out =
     (case out of
        Inl e \<Rightarrow> error_message ''Unknown error'' e
      | Inr r \<Rightarrow>
          (case resp_text r of
             Inl e \<Rightarrow> error_message ''Unknown error'' e
           | Inr errorText \<Rightarrow> show_nat (status r) @ '': '' @ errorText))"

definition clear_paths :: "string list" where
  "clear_paths =
     [''/api/vectordb/clear'', ''/api/transactions/clear'', ''/api/transaction-items/clear'',
      ''/api/submissions/clear'', ''/api/anomalies/clear'', ''/api/integrations/clear'']"

text \<open>The \<open>success\<close> flag of every entry of \<open>results\<close>, by key.\<close>

definition flags :: "(string \<times> clear_entry) list \<Rightarrow> (string \<times> bool) list" where
  "flags rs = map (\<lambda>(k, e). (k, ce_success e)) rs"

section \<open>The proxy routes: api-requests and transactions\<close>

definition bearer_headers :: "(string \<times> string) list" where
  "bearer_headers = [(''Authorization'', ''Bearer Bearit01!''), (''Content-Type'', ''application/json'')]"

definition api_base :: "(string \<rightharpoonup> string) \<Rightarrow> string" where
  "api_base env = env_or env ''NEXT_PUBLIC_API_URL'' ''https://api.cooler.dev''"

definition nonempty_or :: "string option \<Rightarrow> string \<Rightarrow> string" where
  "nonempty_or v d = (case v of None \<Rightarrow> d | Some x \<Rightarrow> if x = [] then d else x)"

definition api_requests_url :: "(string \<rightharpoonup> string) \<Rightarrow> next_request \<Rightarrow> string" where
  "api_requests_url env request =
     (let limit = nonempty_or (req_searchParams request ''limit'') ''100'';
          userId = req_searchParams request ''userId'' in
      case userId of
        None \<Rightarrow> api_base env @ ''/admin/api-requests/recent?limit='' @ limit
      | Some u \<Rightarrow>
          if u = [] then api_base env @ ''/admin/api-requests/recent?limit='' @ limit
          else api_base env @ ''/admin/customers/'' @ u @ ''/api-requests/recent?limit='' @ limit)"

definition api_requests_try ::
  "'w platform \<Rightarrow> (string \<rightharpoonup> string) \<Rightarrow> next_request \<Rightarrow> (next_response, 'w st) eff" where
  "api_requests_try P env request =
     (eff_bind (do_fetch P \<lparr> fr_url = api_requests_url env request, fr_method = ''GET'',
                             fr_headers = bearer_headers, fr_timeout = None \<rparr>) (\<lambda>response.
        if \<not> ok response then
          eff_bind (read_text response) (\<lambda>details.
            eff_lift (respond_failure (''Failed to fetch API requests: '' @ show_nat (status response))
              (JStr details) (status response)))
        else
          eff_bind (read_json response) (\<lambda>data.
          eff_bind (timestamp P) (\<lambda>ts.
            eff_lift (NextResponse_json (JObj
              [(''success'', JBool True), (''data'', data), (''timestamp'', ts)]) 200)))))"

definition api_requests_GET ::
  "'w platform \<Rightarrow> (string \<rightharpoonup> string) \<Rightarrow> next_request \<Rightarrow> (next_response, 'w st) eff" where
  "api_requests_GET P env request =
     try_catch (api_requests_try P env request)
       (\<lambda>error. eff_lift (respond_failure ''Failed to fetch API requests''
                   (JStr (error_message ''Unknown error'' error)) 500))"

text \<open>The reshaping of the upstream list in \<open>transactions/[userId]\<close>. It has no effect on the
  world, so it is a function that returns or throws.\<close>

definition sum_bind :: "js_exn + 'a \<Rightarrow> ('a \<Rightarrow> js_exn + 'b) \<Rightarrow> js_exn + 'b" where
  "sum_bind r f = (case r of Inl e \<Rightarrow> Inl e | Inr x \<Rightarrow> f x)"

definition format_tx :: "jsval \<Rightarrow> js_exn + jsval" where
  "format_tx tx =
     sum_bind (get_prop tx ''id'') (\<lambda>tx_id.
     sum_bind (get_prop tx ''dateCreated'') (\<lambda>tx_dateCreated.
     sum_bind (get_prop tx ''statusFootprint'') (\<lambda>tx_status.
     sum_bind (get_prop tx ''itemCount'') (\<lambda>tx_itemCount.
     sum_bind (get_prop tx ''stripeUsageId'') (\<lambda>tx_stripeUsageId.
       Inr (JObj [(''id'', tx_id),
                  (''dateCreated'', tx_dateCreated),
                  (''status'', tx_status),
                  (''itemCount'', or_else tx_itemCount (JNum 0)),
                  (''stripeUsageId'', tx_stripeUsageId)]))))))"

fun map_throwing :: "('a \<Rightarrow> js_exn + 'b) \<Rightarrow> 'a list \<Rightarrow> js_exn + 'b list" where
  "map_throwing f [] = Inr []"
| "map_throwing f (x # xs) =
     sum_bind (f x) (\<lambda>y. sum_bind (map_throwing f xs) (\<lambda>ys. Inr (y # ys)))"

text \<open>\<^verbatim>\<open>(data.recentTransactions || []).slice(0, 7).map(...)\<close>: on anything truthy that is not
  an array, \<open>slice\<close> or \<open>map\<close> is not a function.\<close>

definition recentTransactions :: "jsval \<Rightarrow> js_exn + jsval" where
  "recentTransactions data =
     sum_bind (get_prop data ''recentTransactions'') (\<lambda>rt.
       case or_else rt (JArr []) of
         JArr xs \<Rightarrow> sum_bind (map_throwing format_tx (take 7 xs)) (\<lambda>ys. Inr (JArr ys))
       | JStr s \<Rightarrow> Inl (Error ''(data.recentTransactions || []).slice(...).map is not a function'')
       | _ \<Rightarrow> Inl (Error ''(data.recentTransactions || []).slice is not a function''))"

text \<open>\<^verbatim>\<open>data.counts?.transactions || 0\<close>\<close>

definition totalCount :: "jsval \<Rightarrow> js_exn + jsval" where
  "totalCount data =
     sum_bind (get_prop data ''counts'') (\<lambda>counts.
     sum_bind (case counts of JUndefined \<Rightarrow> Inr JUndefined | JNull \<Rightarrow> Inr JUndefined
               | _ \<Rightarrow> get_prop counts ''transactions'') (\<lambda>n.
       Inr (or_else n (JNum 0))))"

definition transactions_try ::
  "'w platform \<Rightarrow> (string \<rightharpoonup> string) \<Rightarrow> string \<Rightarrow> next_request \<Rightarrow> (next_response, 'w st) eff" where
  "transactions_try P env userId request =
     (let authHeader = req_headers request ''authorization'';
          expectedToken = ''Bearer Bearit01!'' in
      if unauthorized authHeader expectedToken then
        eff_lift (NextResponse_json (JObj [(''success'', JBool False), (''error'', JStr ''Unauthorized'')]) 401)
      else if userId = [] then
        eff_lift (NextResponse_json (JObj [(''success'', JBool False), (''error'', JStr ''userId is required'')]) 400)
      else
        let apiUrl = api_base env @ ''/admin/customers/'' @ userId @ ''/database-counts'' in
        eff_bind (do_fetch P \<lparr> fr_url = apiUrl, fr_method = ''GET'',
                                fr_headers = bearer_headers, fr_timeout = None \<rparr>) (\<lambda>response.
          if \<not> ok response then
            eff_bind (read_text response) (\<lambda>details.
              eff_lift (respond_failure (''Failed to fetch transactions: '' @ show_nat (status response))
                (JStr details) (status response)))
          else
            eff_bind (read_json response) (\<lambda>data.
            eff_bind (eff_lift (recentTransactions data)) (\<lambda>recent.
            eff_bind (eff_lift (totalCount data)) (\<lambda>total.
            eff_bind (timestamp P) (\<lambda>ts.
              eff_lift (NextResponse_json (JObj
                [(''success'', JBool True),
                 (''userId'', JStr userId),
                 (''transactions'', recent),
                 (''totalCount'', total),
                 (''timestamp'', ts)]) 200)))))))"

definition transactions_GET ::
  "'w platform \<Rightarrow> (string \<rightharpoonup> string) \<Rightarrow> string \<Rightarrow> next_request \<Rightarrow> (next_response, 'w st) eff" where
  "transactions_GET P env userId request =
     try_catch (transactions_try P env userId request)
       (\<lambda>error. eff_lift (respond_failure ''Failed to fetch transactions''
                   (JStr (error_message ''Unknown error'' error)) 500))"

text \<open>
  The shape the specification gives to a listed transaction, written without reference to
  the handler: \<open>prop_of\<close> reads a property where that cannot throw (undefined unless the value
  is an object that has it), and \<open>spec_reshape\<close> is
  \<open>{ id, dateCreated, status, itemCount, stripeUsageId }\<close> with \<open>itemCount\<close> defaulting to 0.
\<close>

definition prop_of :: "jsval \<Rightarrow> string \<Rightarrow> jsval" where
  "prop_of v k = (case v of JObj fs \<Rightarrow> own_prop fs k | _ \<Rightarrow> JUndefined)"

definition spec_reshape :: "jsval \<Rightarrow> jsval" where
  "spec_reshape tx =
     JObj [(''id'', prop_of tx ''id''),
           (''dateCreated'', prop_of tx ''dateCreated''),
           (''status'', prop_of tx ''statusFootprint''),
           (''itemCount'', or_else (prop_of tx ''itemCount'') (JNum 0)),
           (''stripeUsageId'', prop_of tx ''stripeUsageId'')]"

section \<open>The impersonate route\<close>

text \<open>
  A template literal renders a value with \<open>String(v)\<close>; the rendering of a number is the
  platform's. An object is rendered by the first of its \<open>toString\<close> and \<open>valueOf\<close> that is
  callable and returns a primitive. For a value parsed from JSON that is the inherited
  \<open>Object.prototype.toString\<close>, unless the object has an own property \<open>toString\<close>: no JSON
  value is callable and the inherited \<open>valueOf\<close> returns the object, so the rendering throws a
  TypeError. An array is rendered by \<open>join\<close>, which renders its elements in order, \<open>null\<close> and
  \<open>undefined\<close> as the empty string.
\<close>

fun js_String :: "(real \<Rightarrow> string) \<Rightarrow> jsval \<Rightarrow> js_exn + string"
  and js_join :: "(real \<Rightarrow> string) \<Rightarrow> jsval list \<Rightarrow> js_exn + string" where
  "js_String num JUndefined = Inr ''undefined''"
| "js_String num JNull = Inr ''null''"
| "js_String num (JBool b) = Inr (if b then ''true'' else ''false'')"
| "js_String num (JNum r) = Inr (num r)"
| "js_String num (JStr s) = Inr s"
| "js_String num (JArr xs) = js_join num xs"
| "js_String num (JObj fs) =
     (if ''toString'' \<in> set (map fst fs) then Inl (Error ''Cannot convert object to primitive value'')
      else Inr ''[object Object]'')"
| "js_join num [] = Inr []"
| "js_join num (x # xs) =
     (case (case x of JUndefined \<Rightarrow> Inr [] | JNull \<Rightarrow> Inr [] | _ \<Rightarrow> js_String num x) of
        Inl e \<Rightarrow> Inl e
      | Inr s \<Rightarrow>
          if xs = [] then Inr s
          else (case js_join num xs of Inl e \<Rightarrow> Inl e | Inr t \<Rightarrow> Inr (s @ '','' @ t)))"

text \<open>\<^verbatim>\<open>const { userId } = body\<close>\<close>

definition destructure_userId :: "jsval \<Rightarrow> js_exn + jsval" where
  "destructure_userId body =
     (case body of
        JUndefined \<Rightarrow> Inl (Error (''Cannot destructure property '' @ quoted ''userId'' @ '' of ''
                         @ quoted ''body'' @ '' as it is undefined.''))
      | JNull \<Rightarrow> Inl (Error (''Cannot destructure property '' @ quoted ''userId'' @ '' of ''
                    @ quoted ''body'' @ '' as it is null.''))
      | _ \<Rightarrow> get_prop body ''userId'')"

definition impersonate_try ::
  "'w platform \<Rightarrow> (string \<rightharpoonup> string) \<Rightarrow> next_request \<Rightarrow> (next_response, 'w st) eff" where
  "impersonate_try P env request =
     (let authHeader = req_headers request ''authorization'';
          expectedToken = ''Bearer Bearit01!'' in
      if unauthorized authHeader expectedToken then
        eff_lift (NextResponse_json (JObj [(''success'', JBool False), (''error'', JStr ''Unauthorized'')]) 401)
      else
        eff_bind (request_json request) (\<lambda>body.
        eff_bind (eff_lift (destructure_userId body)) (\<lambda>userId.
          if \<not> truthy userId then
            eff_lift (NextResponse_json (JObj [(''success'', JBool False), (''error'', JStr ''userId is required'')]) 400)
          else
            eff_bind (new_uuid P) (\<lambda>nonce.
            eff_bind (now P) (\<lambda>created.
            let expiresAt = created + 5 * 60 * 1000 in
            eff_bind (now P) (\<lambda>issued.
            let payload = JObj [(''userId'', userId),
                                (''adminId'', JStr ''admin''),
                                (''readOnly'', JBool True),
                                (''expiresAt'', JStr (toISOString P expiresAt)),
                                (''nonce'', JStr nonce),
                                (''iat'', JNum (real_of_int (issued div 1000)))];
                secret = env_or env ''ADMIN_JWT_SECRET'' ''admin-secret-key-change-in-production'' in
            eff_bind (do_sign P \<lparr> jwt_payload = payload,
                                  jwt_protectedHeader = JObj [(''alg'', JStr ''HS256'')],
                                  jwt_expirationTime = ''5m'' \<rparr> secret) (\<lambda>token.
            let appUrl = env_or env ''NEXT_PUBLIC_APP_URL'' ''https://app.cooler.dev'' in
            eff_bind (eff_lift (js_String (Number_toString P) userId)) (\<lambda>rendered.
            let magicLink = appUrl @ ''/transactions?impersonate='' @ rendered @ ''&token='' @ token in
            eff_bind (timestamp P) (\<lambda>audit_timestamp.
              eff_lift (NextResponse_json (JObj
                [(''success'', JBool True),
                 (''magicLink'', JStr magicLink),
                 (''token'', JStr token),
                 (''expiresAt'', JStr (toISOString P expiresAt)),
                 (''message'', JStr ''Magic link generated successfully'')]) 200))))))))))"

definition impersonate_POST ::
  "'w platform \<Rightarrow> (string \<rightharpoonup> string) \<Rightarrow> next_request \<Rightarrow> (next_response, 'w st) eff" where
  "impersonate_POST P env request =
     try_catch (impersonate_try P env request)
       (\<lambda>error. eff_lift (respond_failure ''Failed to generate magic link''
                   (JStr (error_message ''Unknown error'' error)) 500))"

section \<open>All route handlers\<close>

datatype route =
    AnomaliesClear
  | TransactionsClear
  | TransactionItemsClear
  | SubmissionsClear
  | IntegrationsClear
  | VectordbClear
  | ClearDatabase
  | ApiRequests
  | Transactions string
  | Impersonate

definition handle ::
  "route \<Rightarrow> 'w platform \<Rightarrow> (string \<rightharpoonup> string) \<Rightarrow> next_request \<Rightarrow> (next_response, 'w st) eff" where
  "handle r P env request =
     (case r of
        AnomaliesClear \<Rightarrow> anomalies_clear_DELETE P env request
      | TransactionsClear \<Rightarrow> transactions_clear_DELETE P env request
      | TransactionItemsClear \<Rightarrow> transaction_items_clear_DELETE P env request
      | SubmissionsClear \<Rightarrow> submissions_clear_DELETE P env request
      | IntegrationsClear \<Rightarrow> integrations_clear_DELETE P env request
      | VectordbClear \<Rightarrow> vectordb_clear_DELETE P env request
      | ClearDatabase \<Rightarrow> clear_database_POST P env request
      | ApiRequests \<Rightarrow> api_requests_GET P env request
      | Transactions userId \<Rightarrow> transactions_GET P env userId request
      | Impersonate \<Rightarrow> impersonate_POST P env request)"

definition table_clearing_routes :: "route list" where
  "table_clearing_routes =
     [AnomaliesClear, TransactionsClear, TransactionItemsClear, SubmissionsClear, IntegrationsClear]"

text \<open>The try block of each route and the error string of its outer catch block.\<close>

definition route_try ::
  "route \<Rightarrow> 'w platform \<Rightarrow> (string \<rightharpoonup> string) \<Rightarrow> next_request \<Rightarrow> (next_response, 'w st) eff" where
  "route_try r P env request =
     (case r of
        AnomaliesClear \<Rightarrow> table_clear_try anomalies_strings P env request
      | TransactionsClear \<Rightarrow> table_clear_try transactions_strings P env request
      | TransactionItemsClear \<Rightarrow> table_clear_try transaction_items_strings P env request
      | SubmissionsClear \<Rightarrow> table_clear_try submissions_strings P env request
      | IntegrationsClear \<Rightarrow> integrations_clear_try P env request
      | VectordbClear \<Rightarrow> vectordb_clear_try P env request
      | ClearDatabase \<Rightarrow> clear_database_try P env request
      | ApiRequests \<Rightarrow> api_requests_try P env request
      | Transactions userId \<Rightarrow> transactions_try P env userId request
      | Impersonate \<Rightarrow> impersonate_try P env request)"

definition caught_error :: "route \<Rightarrow> string" where
  "caught_error r =
     (case r of
        AnomaliesClear \<Rightarrow> ''Failed to clear anomalies''
      | TransactionsClear \<Rightarrow> ''Failed to clear transactions''
      | TransactionItemsClear \<Rightarrow> ''Failed to clear transaction items''
      | SubmissionsClear \<Rightarrow> ''Failed to clear submissions''
      | IntegrationsClear \<Rightarrow> ''Failed to clear integrations''
      | VectordbClear \<Rightarrow> ''Failed to clear VectorDB''
      | ClearDatabase \<Rightarrow> ''Failed to clear database''
      | ApiRequests \<Rightarrow> ''Failed to fetch API requests''
      | Transactions userId \<Rightarrow> ''Failed to fetch transactions''
      | Impersonate \<Rightarrow> ''Failed to generate magic link'')"

text \<open>A recorded call threw.\<close>

definition threw :: "call \<Rightarrow> bool" where
  "threw c =
     (case c of
        Query sql params out \<Rightarrow> isl out
      | Fetch rq out \<Rightarrow> isl out
      | ReadText out \<Rightarrow> isl out
      | ReadJson out \<Rightarrow> isl out
      | RequestJson out \<Rightarrow> isl out
      | Sign b secret out \<Rightarrow> isl out)"

text \<open>The statement each table-clearing route sends to the pool.\<close>

definition delete_statement :: "route \<Rightarrow> string \<times> jsval list option" where
  "delete_statement r =
     (case r of
        AnomaliesClear \<Rightarrow> (''DELETE FROM anomaly_flags'', None)
      | TransactionsClear \<Rightarrow> (''DELETE FROM transactions'', None)
      | TransactionItemsClear \<Rightarrow> (''DELETE FROM transaction_items'', None)
      | SubmissionsClear \<Rightarrow> (''DELETE FROM submissions'', None)
      | IntegrationsClear \<Rightarrow> (''DELETE FROM integrations WHERE type = $1'', Some [JStr ''shopify''])
      | _ \<Rightarrow> ([], None))"

section \<open>The AnomalyProcessor component\<close>

datatype ResolutionAction = UPDATE_SUBMISSION | UPDATE_NAICS_CODE | UPDATE_PRICE | MARK_RESOLVED

definition action_value :: "ResolutionAction \<Rightarrow> string" where
  "action_value a =
     (case a of UPDATE_SUBMISSION \<Rightarrow> ''UPDATE_SUBMISSION'' | UPDATE_NAICS_CODE \<Rightarrow> ''UPDATE_NAICS_CODE''
      | UPDATE_PRICE \<Rightarrow> ''UPDATE_PRICE'' | MARK_RESOLVED \<Rightarrow> ''MARK_RESOLVED'')"

record submission_data =
  title :: string
  manufacturer :: string
  category :: string
  description :: string
  price :: real
  currency :: string
  naicsCode :: string

record processor_state =
  selectedAction :: ResolutionAction
  resolutionNotes :: string
  submissionData :: submission_data

definition submissionData_json :: "submission_data \<Rightarrow> jsval" where
  "submissionData_json d =
     JObj [(''title'', JStr (title d)),
           (''manufacturer'', JStr (manufacturer d)),
           (''category'', JStr (category d)),
           (''description'', JStr (description d)),
           (''price'', JNum (price d)),
           (''currency'', JStr (currency d)),
           (''naicsCode'', JStr (naicsCode d))]"

text \<open>The \<open>requestData\<close> object that \<open>handleResolve\<close> builds and posts.\<close>

definition requestData :: "processor_state \<Rightarrow> (string \<times> jsval) list" where
  "requestData s =
     (let base = [(''action'', JStr (action_value (selectedAction s))),
                  (''notes'', JStr (resolutionNotes s))] in
      if selectedAction s = UPDATE_SUBMISSION then
        base @ [(''submissionData'', submissionData_json (submissionData s))]
      else if selectedAction s = UPDATE_NAICS_CODE then
        base @ [(''naicsCode'', JStr (naicsCode (submissionData s)))]
      else if selectedAction s = UPDATE_PRICE then
        base @ [(''price'', JNum (price (submissionData s))),
                (''currency'', JStr (currency (submissionData s)))]
      else base)"

record axios_post =
  post_url :: string
  post_data :: jsval
  post_headers :: "(string \<times> string) list"

definition handleResolve_post :: "string \<Rightarrow> string \<Rightarrow> processor_state \<Rightarrow> axios_post" where
  "handleResolve_post API_BASE_URL anomaly_id s =
     \<lparr> post_url = API_BASE_URL @ ''/admin/anomalies/'' @ anomaly_id @ ''/resolve'',
       post_data = JObj (requestData s),
       post_headers = [(''Authorization'', ''Bearer Bearit01!'')] \<rparr>"

section \<open>The API requests page\<close>

text \<open>
  The component state of \<open>ApiRequestsPage\<close> (its \<open>useState\<close> hooks), the events that change
  it (every setter call of the component), and what its polling effect schedules.
\<close>

record api_request =
  ar_id :: string
  ar_userId :: string
  ar_endpoint :: string
  ar_method :: string
  ar_timestamp :: string
  ar_success :: bool

datatype status_filter = FilterAll | FilterSuccess | FilterError

record page_state =
  requests :: "api_request list"
  loading :: bool
  page_error :: "string option"
  lastUpdated :: "int option"
  autoRefresh :: bool
  refreshInterval :: nat
  searchTerm :: string
  statusFilter :: status_filter
  endpointFilter :: string
  userIdFilter :: string
  selectedRequest :: "api_request option"
  isModalOpen :: bool

definition initial_page :: "string option \<Rightarrow> page_state" where
  "initial_page userId_param =
     \<lparr> requests = [], loading = True, page_error = None, lastUpdated = None,
       autoRefresh = True, refreshInterval = 5000,
       searchTerm = [], statusFilter = FilterAll, endpointFilter = [],
       userIdFilter = nonempty_or userId_param [],
       selectedRequest = None, isModalOpen = False \<rparr>"

text \<open>One run of \<open>fetchApiRequests\<close>: the envelope said success (with the list and the time
  of \<open>new Date()\<close>), or it did not (with its error, if any), or the request threw.\<close>

datatype fetch_outcome =
    Fetched "api_request list" int
  | Refused "string option"
  | Threw

definition fetchApiRequests :: "fetch_outcome \<Rightarrow> page_state \<Rightarrow> page_state" where
  "fetchApiRequests out s =
     (let s1 = s\<lparr> page_error := None \<rparr>;
          s2 = (case out of
                  Fetched rs t \<Rightarrow> s1\<lparr> requests := rs, lastUpdated := Some t \<rparr>
                | Refused e \<Rightarrow> s1\<lparr> page_error := Some (nonempty_or e ''Failed to fetch API requests'') \<rparr>
                | Threw \<Rightarrow> s1\<lparr> page_error := Some ''Failed to fetch API requests'' \<rparr>)
      in s2\<lparr> loading := False \<rparr>)"

datatype page_event =
    FetchDone fetch_outcome
  | ToggleAutoRefresh
  | SearchTermChanged string
  | StatusFilterChanged status_filter
  | EndpointFilterChanged string
  | UserIdFilterChanged string
  | RequestClick api_request
  | CloseModal
  | ViewUser string
  | ViewSimilarRequests api_request

fun page_step :: "page_state \<Rightarrow> page_event \<Rightarrow> page_state" where
  "page_step s (FetchDone out) = fetchApiRequests out s"
| "page_step s ToggleAutoRefresh = s\<lparr> autoRefresh := \<not> autoRefresh s \<rparr>"
| "page_step s (SearchTermChanged v) = s\<lparr> searchTerm := v \<rparr>"
| "page_step s (StatusFilterChanged v) = s\<lparr> statusFilter := v \<rparr>"
| "page_step s (EndpointFilterChanged v) = s\<lparr> endpointFilter := v \<rparr>"
| "page_step s (UserIdFilterChanged v) = s\<lparr> userIdFilter := v \<rparr>"
| "page_step s (RequestClick r) = s\<lparr> selectedRequest := Some r, isModalOpen := True \<rparr>"
| "page_step s CloseModal = s\<lparr> isModalOpen := False, selectedRequest := None \<rparr>"
| "page_step s (ViewUser u) = s\<lparr> userIdFilter := u, isModalOpen := False \<rparr>"
| "page_step s (ViewSimilarRequests r) = s\<lparr> endpointFilter := ar_endpoint r, isModalOpen := False \<rparr>"

definition page_run :: "string option \<Rightarrow> page_event list \<Rightarrow> page_state" where
  "page_run userId_param evs = foldl page_step (initial_page userId_param) evs"

text \<open>The polling effect: nothing when auto-refresh is off, otherwise
  \<^verbatim>\<open>setInterval(fetchApiRequests, refreshInterval)\<close>; the result is the delay passed.\<close>

definition scheduled_interval :: "page_state \<Rightarrow> nat option" where
  "scheduled_interval s = (if \<not> autoRefresh s then None else Some (refreshInterval s))"

section \<open>Response envelopes\<close>

text \<open>
  The shape of a response body: an object with a boolean \<open>success\<close>; when \<open>success\<close> is
  true, whether it has a \<open>data\<close> field; when \<open>success\<close> is false, an \<open>error\<close> string or, for
  an aggregate answer, no \<open>error\<close> and a \<open>summary\<close>.
\<close>

definition envelope :: "bool \<Rightarrow> bool \<Rightarrow> next_response \<Rightarrow> bool" where
  "envelope aggregate has_data resp =
     (case json_body resp of
        JObj fs \<Rightarrow>
          (case map_of fs ''success'' of
             Some (JBool b) \<Rightarrow>
               if b then (map_of fs ''data'' \<noteq> None) = has_data
               else (case map_of fs ''error'' of
                       Some (JStr e) \<Rightarrow> True
                     | None \<Rightarrow> aggregate \<and> map_of fs ''summary'' \<noteq> None
                     | _ \<Rightarrow> False)
           | _ \<Rightarrow> False)
      | _ \<Rightarrow> False)"

text \<open>
  The error-handling pattern, for a result \<open>res\<close> of a handler and the calls \<open>new\<close> it made:
  if one of the calls threw, the answer is \<open>{ success: false, error, details }\<close> with status
  500; if none threw and an HTTP request came back with a status that is not ok (and that a
  response with a body may carry), the answer is \<open>{ success: false, error, details }\<close> with
  that status.
\<close>

definition failure_pattern :: "js_exn + next_response \<Rightarrow> call list \<Rightarrow> bool" where
  "failure_pattern res new =
     (((\<exists>c \<in> set new. threw c) \<longrightarrow> (\<exists>err details. res = Inr (failure_response err (JStr details) 500)))
      \<and> ((\<forall>c \<in> set new. \<not> threw c) \<longrightarrow>
           (\<forall>rq u. Fetch rq (Inr u) \<in> set new \<and> \<not> ok u \<and> body_status (status u) \<longrightarrow>
              (\<exists>err details. res = Inr (failure_response err (JStr details) (status u))))))"

section \<open>A concrete platform for examples\<close>

text \<open>
  A platform on which the handlers can be run: the world is a counter of the calls made,
  every \<open>fetch\<close> has the outcome \<open>fetched\<close>, every statement the outcome \<open>queried\<close>, the
  clock shows a second per call, and the signer returns a fixed token.
\<close>

definition stub_platform :: "(js_exn + http_response) \<Rightarrow> (js_exn + pg_result) \<Rightarrow> nat platform" where
  "stub_platform fetched queried =
     \<lparr> pool_query = (\<lambda>sql params w. (queried, Suc w)),
       fetch = (\<lambda>rq w. (fetched, Suc w)),
       Date_now = (\<lambda>w. (1000 * int w, Suc w)),
       randomUUID = (\<lambda>w. (''nonce'', Suc w)),
       jwt_sign = (\<lambda>b secret w. (Inr ''signed'', Suc w)),
       toISOString = (\<lambda>t. show_nat (nat t)),
       Number_toString = (\<lambda>r. show_nat (nat \<lfloor>r\<rfloor>)) \<rparr>"

definition unavailable :: http_response where
  "unavailable = \<lparr> status = 503, resp_text = Inr ''Service Unavailable'', resp_json = Inl (Error ''Unexpected token'') \<rparr>"

definition accepted :: http_response where
  "accepted = \<lparr> status = 200, resp_text = Inr ''{}'', resp_json = Inr (JObj []) \<rparr>"

definition not_modified :: http_response where
  "not_modified = \<lparr> status = 304, resp_text = Inr [], resp_json = Inl (Error ''Unexpected end of JSON input'') \<rparr>"

definition admin_request :: "string option \<Rightarrow> next_request" where
  "admin_request password =
     \<lparr> req_headers = (\<lambda>h. if h = ''admin-password'' then password else None),
       req_url = ''http://localhost:3000/api/clear-database'',
       req_searchParams = Map.empty,
       req_json = Inl (Error ''Unexpected end of JSON input'') \<rparr>"

definition bearer_request :: "jsval \<Rightarrow> next_request" where
  "bearer_request body =
     \<lparr> req_headers = (\<lambda>h. if h = ''authorization'' then Some ''Bearer Bearit01!'' else None),
       req_url = ''http://localhost:3000/api/impersonate'',
       req_searchParams = Map.empty,
       req_json = Inr body \<rparr>"

text \<open>An upstream answer to \<open>database-counts\<close> with eight recent transactions.\<close>

definition eight_transactions :: jsval where
  "eight_transactions =
     JObj [(''counts'', JObj [(''transactions'', JNum 8)]),
           (''recentTransactions'',
            JArr [JObj [(''id'', JStr ''t1''), (''itemCount'', JNum 2)],
                  JObj [(''id'', JStr ''t2'')],
                  JObj [(''id'', JStr ''t3'')],
                  JObj [(''id'', JStr ''t4'')],
                  JObj [(''id'', JStr ''t5'')],
                  JObj [(''id'', JStr ''t6'')],
                  JObj [(''id'', JStr ''t7'')],
                  JObj [(''id'', JStr ''t8'')]])]"

definition counts_response :: http_response where
  "counts_response = \<lparr> status = 200, resp_text = Inr [], resp_json = Inr eight_transactions \<rparr>"

section \<open>Properties\<close>

text \<open>
  C7. The Postgres connection pool is configured with a maximum of 20 clients, an idle
  timeout of 30000 milliseconds and a connection timeout of 2000 milliseconds, whatever the
  environment.
\<close>

theorem pool_settings:
  "max_clients (pool env) = 20 \<and> idleTimeoutMillis (pool env) = 30000
   \<and> connectionTimeoutMillis (pool env) = 2000"
  by (simp add: pool_def)

subsection \<open>Effects\<close>

lemmas eff_defs = eff_return_def eff_throw_def eff_bind_def try_catch_def eff_lift_def

lemma now_eq: "now P (w, tr) = (Inr (fst (Date_now P w)), (snd (Date_now P w), tr))"
  by (simp add: now_def split: prod.splits)

lemma timestamp_eq:
  "timestamp P (w, tr) = (Inr (JStr (toISOString P (fst (Date_now P w)))), (snd (Date_now P w), tr))"
  by (simp add: timestamp_def now_eq eff_defs)

lemma new_uuid_eq: "new_uuid P (w, tr) = (Inr (fst (randomUUID P w)), (snd (randomUUID P w), tr))"
  by (simp add: new_uuid_def split: prod.splits)

lemma pool_dot_query_eq:
  "pool_dot_query P sql params (w, tr) =
     (fst (pool_query P sql params w),
      (snd (pool_query P sql params w), tr @ [Query sql params (fst (pool_query P sql params w))]))"
  by (simp add: pool_dot_query_def split: prod.splits)

lemma do_fetch_eq:
  "do_fetch P rq (w, tr) = (fst (fetch P rq w), (snd (fetch P rq w), tr @ [Fetch rq (fst (fetch P rq w))]))"
  by (simp add: do_fetch_def split: prod.splits)

lemma read_text_eq: "read_text r (w, tr) = (resp_text r, (w, tr @ [ReadText (resp_text r)]))"
  by (simp add: read_text_def)

lemma read_json_eq: "read_json r (w, tr) = (resp_json r, (w, tr @ [ReadJson (resp_json r)]))"
  by (simp add: read_json_def)

lemma request_json_eq:
  "request_json rq (w, tr) = (req_json rq, (w, tr @ [RequestJson (req_json rq)]))"
  by (simp add: request_json_def)

lemma do_sign_eq:
  "do_sign P b secret (w, tr) =
     (fst (jwt_sign P b secret w),
      (snd (jwt_sign P b secret w), tr @ [Sign b secret (fst (jwt_sign P b secret w))]))"
  by (simp add: do_sign_def split: prod.splits)

lemma NextResponse_json_literal:
  "NextResponse_json b 200 = Inr (json_response b 200)"
  "NextResponse_json b 400 = Inr (json_response b 400)"
  "NextResponse_json b 401 = Inr (json_response b 401)"
  "NextResponse_json b 500 = Inr (json_response b 500)"
  by (simp_all add: NextResponse_json_def body_status_def)

lemma respond_unauthorized_eq: "respond_unauthorized = Inr unauthorized_response"
  by (simp add: respond_unauthorized_def unauthorized_response_def NextResponse_json_literal)

lemma respond_failure_eq:
  "respond_failure err details s =
     (if body_status s then Inr (failure_response err details s) else Inl (status_error s))"
  by (simp add: respond_failure_def failure_response_def NextResponse_json_def)

lemma respond_failure_500: "respond_failure err details 500 = Inr (failure_response err details 500)"
  by (simp add: respond_failure_eq body_status_def)

lemma respond_summary_eq: "respond_summary rs = Inr (summary_response rs)"
  by (simp add: respond_summary_def summary_response_def summary_body_def NextResponse_json_literal)

lemma body_status_literal: "body_status 200" "body_status 400" "body_status 401" "body_status 500"
  by (simp_all add: body_status_def)

lemmas respond_eqs = NextResponse_json_literal respond_unauthorized_eq respond_failure_500
  respond_summary_eq

lemmas prim_eqs = now_eq timestamp_eq new_uuid_eq pool_dot_query_eq do_fetch_eq read_text_eq
  read_json_eq request_json_eq do_sign_eq NextResponse_json_literal respond_unauthorized_eq
  respond_failure_500 respond_summary_eq

subsection \<open>The database library\<close>

lemma query_eq:
  "query P sql params (w, tr) =
     (case fst (pool_query P sql params (snd (Date_now P w))) of
        Inl e \<Rightarrow> (Inl e, (snd (pool_query P sql params (snd (Date_now P w))), tr @ [Query sql params (Inl e)]))
      | Inr res \<Rightarrow>
          (Inr res, (snd (Date_now P (snd (pool_query P sql params (snd (Date_now P w))))),
                     tr @ [Query sql params (Inr res)])))"
  by (simp add: query_def prim_eqs eff_defs split: sum.splits)

lemma clearTable_eq:
  "clearTable P t (w, tr) =
     (let out = fst (pool_query P (''DELETE FROM '' @ t) None (snd (Date_now P w)));
          w2 = snd (pool_query P (''DELETE FROM '' @ t) None (snd (Date_now P w)))
      in (Inr (clearTable_result out),
          (case out of Inl e \<Rightarrow> w2 | Inr res \<Rightarrow> snd (Date_now P w2)),
          tr @ [Query (''DELETE FROM '' @ t) None out]))"
  by (simp add: clearTable_def query_eq clearTable_result_def eff_defs Let_def split: sum.splits)

lemma clearTable_total:
  "\<exists>out s'. clearTable P t s = (Inr (clearTable_result out), s')
       \<and> snd s' = snd s @ [Query (''DELETE FROM '' @ t) None out]"
proof -
  obtain w tr where s: "s = (w, tr)" by (cases s)
  show ?thesis
    unfolding s clearTable_eq Let_def by (intro exI conjI) (rule refl, simp)
qed

lemma clearTable_results:
  "clearTable_result (Inr res) = \<lparr> success = True, rowCount = or_zero (pg_rowCount res), error = None \<rparr>"
  "clearTable_result (Inl e) =
      \<lparr> success = False, rowCount = 0, error = Some (error_message ''Unknown error'' e) \<rparr>"
  by (simp_all add: clearTable_result_def)

lemma clearTables_loop_total:
  "\<exists>outs s'. clearTables_loop P acc names s =
        (Inr (foldl (\<lambda>obj (t, out). assign_entry obj t (clearTable_result out)) acc (zip names outs)), s')
     \<and> length outs = length names
     \<and> snd s' = snd s @ map (\<lambda>(t, out). Query (''DELETE FROM '' @ t) None out) (zip names outs)"
proof (induction names arbitrary: acc s)
  case Nil
  show ?case
    apply (rule exI [of _ "[]"])
    apply (rule exI [of _ s])
    by (simp add: eff_return_def)
next
  case (Cons t names)
  from clearTable_total [of P t s]
  obtain out s1 where c: "clearTable P t s = (Inr (clearTable_result out), s1)"
    and tr1: "snd s1 = snd s @ [Query (''DELETE FROM '' @ t) None out]"
    by (elim exE conjE)
  from Cons.IH [of "assign_entry acc t (clearTable_result out)" s1]
  obtain outs s' where l: "clearTables_loop P (assign_entry acc t (clearTable_result out)) names s1 =
        (Inr (foldl (\<lambda>obj (t, out). assign_entry obj t (clearTable_result out)) (assign_entry acc t (clearTable_result out)) (zip names outs)), s')"
     and len: "length outs = length names"
     and tr2: "snd s' = snd s1 @ map (\<lambda>(t, out). Query (''DELETE FROM '' @ t) None out) (zip names outs)"
    by (elim exE conjE)
  have e: "clearTables_loop P acc (t # names) s =
        (Inr (foldl (\<lambda>obj (t, out). assign_entry obj t (clearTable_result out)) acc (zip (t # names) (out # outs))), s')"
    using c l by (simp add: eff_bind_def)
  have tr: "snd s' = snd s @ map (\<lambda>(t, out). Query (''DELETE FROM '' @ t) None out) (zip (t # names) (out # outs))"
    using tr1 tr2 by simp
  have len': "length (out # outs) = length (t # names)"
    using len by simp
  show ?case
    by (intro exI conjI) (rule e, rule len', rule tr)
qed

lemma dom_assign_entry:
  "dom (own_entries (assign_entry obj t v)) = dom (own_entries obj) \<union> ({t} - {''__proto__''})"
  by (simp add: assign_entry_def)

lemma dom_foldl_assign:
  "length outs = length names \<Longrightarrow>
   dom (own_entries (foldl (\<lambda>obj (t, out). assign_entry obj t (f out)) acc (zip names outs)))
     = dom (own_entries acc) \<union> (set names - {''__proto__''})"
proof (induction names arbitrary: acc outs)
  case Nil
  then show ?case by simp
next
  case (Cons t names)
  then obtain out outs' where o: "outs = out # outs'" by (cases outs) auto
  have "dom (own_entries (foldl (\<lambda>obj (t, out). assign_entry obj t (f out)) (assign_entry acc t (f out))
              (zip names outs')))
          = dom (own_entries (assign_entry acc t (f out))) \<union> (set names - {''__proto__''})"
    using Cons.prems o by (intro Cons.IH) simp
  then show ?case
    unfolding o dom_assign_entry by auto
qed

text \<open>
  \<open>clearTables\<close> never throws: every requested table is cleared once per occurrence, in input
  order, whatever the outcomes, and the own entries of the result object are the requested
  names other than \<open>__proto__\<close>, each with the result of the (last) clear of that table.
\<close>

lemma clearTables_entries:
  "\<exists>outs results s'. clearTables P tableNames s = (Inr results, s')
         \<and> dom (own_entries results) = set tableNames - {''__proto__''}
         \<and> length outs = length tableNames
         \<and> snd s' = snd s @ map (\<lambda>(t, out). Query (''DELETE FROM '' @ t) None out) (zip tableNames outs)
         \<and> results = foldl (\<lambda>obj (t, out). assign_entry obj t (clearTable_result out)) empty_object (zip tableNames outs)"
proof -
  from clearTables_loop_total [of P empty_object tableNames s]
  obtain outs s' where l: "clearTables P tableNames s =
        (Inr (foldl (\<lambda>obj (t, out). assign_entry obj t (clearTable_result out)) empty_object (zip tableNames outs)), s')"
     and len: "length outs = length tableNames"
     and tr: "snd s' = snd s @ map (\<lambda>(t, out). Query (''DELETE FROM '' @ t) None out) (zip tableNames outs)"
    unfolding clearTables_def by (elim exE conjE)
  have d: "dom (own_entries (foldl (\<lambda>obj (t, out). assign_entry obj t (clearTable_result out)) empty_object (zip tableNames outs)))
            = set tableNames - {''__proto__''}"
    using dom_foldl_assign [OF len, of clearTable_result empty_object] by (simp add: empty_object_def)
  show ?thesis
    by (intro exI conjI) (rule l, rule d, rule len, rule tr, rule refl)
qed

text \<open>
  C10. \<open>clearTable\<close> never throws and returns one of its two records (\<open>clearTable_total\<close>,
  \<open>clearTable_results\<close>), but the result object of \<open>clearTables\<close> does not contain an entry for
  every requested table name. For the request to clear the one table \<open>__proto__\<close>, on every
  platform and in every state, the statement \<open>DELETE FROM __proto__\<close> is issued and
  \<open>clearTables\<close> returns an object without any own entry: the result of the clear has become
  the prototype of the object. So the set of entries, which is empty, is not the set of
  requested names.
\<close>

theorem clearTables_proto_entry_missing:
  "\<exists>out results s'. clearTables P [''__proto__''] s = (Inr results, s')
      \<and> snd s' = snd s @ [Query ''DELETE FROM __proto__'' None out]
      \<and> results = \<lparr> own_entries = Map.empty, prototype = Some (clearTable_result out) \<rparr>
      \<and> dom (own_entries results) = {}
      \<and> dom (own_entries results) \<noteq> set [''__proto__'']"
proof -
  from clearTable_total [of P "''__proto__''" s]
  obtain out s' where c: "clearTable P ''__proto__'' s = (Inr (clearTable_result out), s')"
    and tr: "snd s' = snd s @ [Query (''DELETE FROM '' @ ''__proto__'') None out]"
    by (elim exE conjE)
  define results where "results = \<lparr> own_entries = Map.empty, prototype = Some (clearTable_result out) \<rparr>"
  have run: "clearTables P [''__proto__''] s = (Inr results, s')"
    using c by (simp add: clearTables_def eff_bind_def eff_return_def assign_entry_def empty_object_def
        results_def)
  have tr': "snd s' = snd s @ [Query ''DELETE FROM __proto__'' None out]"
    using tr by simp
  have d: "dom (own_entries results) = {}" and n: "dom (own_entries results) \<noteq> set [''__proto__'']"
    by (simp_all add: results_def)
  show ?thesis
    by (intro exI conjI) (rule run, rule tr', rule results_def, rule d, rule n)
qed

subsection \<open>The password gate\<close>

lemma expectedPassword_nonempty: "expectedPassword env \<noteq> []"
  by (simp add: expectedPassword_def env_or_def split: option.splits)

lemma unauthorized_iff:
  "unauthorized h (expectedPassword env) \<longleftrightarrow> h \<noteq> Some (expectedPassword env)"
  using expectedPassword_nonempty [of env]
  by (auto simp: unauthorized_def split: option.splits)

subsection \<open>The table-clearing routes\<close>

lemma table_clear_try_eq:
  "table_clear_try cs P env request (w, tr) =
     (if req_headers request ''admin-password'' \<noteq> Some (expectedPassword env)
      then (Inr unauthorized_response, (w, tr))
      else
        (let sql = ''DELETE FROM '' @ cs_table cs;
             out = fst (pool_query P sql None (snd (Date_now P w)));
             w2 = snd (pool_query P sql None (snd (Date_now P w)))
         in case out of
              Inl e \<Rightarrow>
                (Inr (failure_response (cs_failed cs) (JStr (error_message ''Unknown error'' e)) 500),
                 (w2, tr @ [Query sql None out]))
            | Inr res \<Rightarrow>
                (Inr (json_response (JObj
                   [(''success'', JBool True),
                    (''message'', JStr (cs_cleared cs @ '' cleared successfully. Removed ''
                         @ show_nat (or_zero (pg_rowCount res)) @ '' rows.'')),
                    (''timestamp'', JStr (toISOString P (fst (Date_now P (snd (Date_now P w2)))))),
                    (''rowCount'', JNum (real (or_zero (pg_rowCount res))))]) 200),
                 (snd (Date_now P (snd (Date_now P w2))), tr @ [Query sql None out]))))"
  by (simp add: table_clear_try_def unauthorized_iff clearTable_eq clearTable_result_def prim_eqs
      eff_defs Let_def split: sum.splits)

lemma table_clear_try_returns: "\<exists>resp s'. table_clear_try cs P env request s = (Inr resp, s')"
  by (cases s) (simp add: table_clear_try_eq Let_def split: sum.splits)

lemma table_clear_DELETE_eq:
  "table_clear_DELETE cs P env request s = table_clear_try cs P env request s"
  using table_clear_try_returns [of cs P env request s]
  by (auto simp: table_clear_DELETE_def try_catch_def)

lemma integrations_clear_try_eq:
  "integrations_clear_try P env request (w, tr) =
     (if req_headers request ''admin-password'' \<noteq> Some (expectedPassword env)
      then (Inr unauthorized_response, (w, tr))
      else
        (let sql = ''DELETE FROM integrations WHERE type = $1''; params = Some [JStr ''shopify''];
             out = fst (pool_query P sql params (snd (Date_now P w)));
             w2 = snd (pool_query P sql params (snd (Date_now P w)))
         in case out of
              Inl e \<Rightarrow>
                (Inr (failure_response ''Failed to clear Shopify integrations''
                        (JStr (error_message ''Unknown database error'' e)) 500),
                 (w2, tr @ [Query sql params out]))
            | Inr res \<Rightarrow>
                (Inr (json_response (JObj
                   [(''success'', JBool True),
                    (''message'', JStr (''Shopify integrations cleared successfully. Removed ''
                         @ rowCount_string (pg_rowCount res) @ '' rows.'')),
                    (''timestamp'', JStr (toISOString P (fst (Date_now P (snd (Date_now P w2)))))),
                    (''rowCount'', rowCount_json (pg_rowCount res))]) 200),
                 (snd (Date_now P (snd (Date_now P w2))), tr @ [Query sql params out]))))"
  by (simp add: integrations_clear_try_def unauthorized_iff query_eq prim_eqs
      eff_defs Let_def split: sum.splits)

lemma integrations_clear_try_returns:
  "\<exists>resp s'. integrations_clear_try P env request s = (Inr resp, s')"
  by (cases s) (simp add: integrations_clear_try_eq Let_def split: sum.splits)

lemma integrations_clear_DELETE_eq:
  "integrations_clear_DELETE P env request s = integrations_clear_try P env request s"
  using integrations_clear_try_returns [of P env request s]
  by (auto simp: integrations_clear_DELETE_def try_catch_def)

lemma table_clear_gate:
  "(req_headers request ''admin-password'' \<noteq> Some (expectedPassword env) \<longrightarrow>
      table_clear_DELETE cs P env request s = (Inr unauthorized_response, s))
   \<and> (req_headers request ''admin-password'' = Some (expectedPassword env) \<longrightarrow>
      (\<exists>resp s' out. table_clear_DELETE cs P env request s = (Inr resp, s')
         \<and> snd s' = snd s @ [Query (''DELETE FROM '' @ cs_table cs) None out]))"
  by (cases s) (auto simp: table_clear_DELETE_eq table_clear_try_eq Let_def split: sum.splits)

lemma integrations_clear_gate:
  "(req_headers request ''admin-password'' \<noteq> Some (expectedPassword env) \<longrightarrow>
      integrations_clear_DELETE P env request s = (Inr unauthorized_response, s))
   \<and> (req_headers request ''admin-password'' = Some (expectedPassword env) \<longrightarrow>
      (\<exists>resp s' out. integrations_clear_DELETE P env request s = (Inr resp, s')
         \<and> snd s' = snd s @ [Query ''DELETE FROM integrations WHERE type = $1'' (Some [JStr ''shopify'']) out]))"
  by (cases s) (auto simp: integrations_clear_DELETE_eq integrations_clear_try_eq Let_def split: sum.splits)

text \<open>
  C1. For every table-clearing route (anomalies/clear, transactions/clear,
  transaction-items/clear, submissions/clear, integrations/clear): if the \<open>admin-password\<close>
  header is absent or differs from the expected password (the environment's
  \<open>NEXT_PUBLIC_ADMIN_PASSWORD\<close>, or \<open>admin123\<close>), the handler returns status 401 with
  \<open>{ success: false, error: "Unauthorized" }\<close> and leaves the world and the trace of calls
  as they were: no statement reaches the database. When the header equals the expected
  password the handler issues its one \<open>DELETE\<close> statement; so the statement is issued only then.
\<close>

theorem clearing_routes_gate:
  assumes "r \<in> set table_clearing_routes"
  shows "(req_headers request ''admin-password'' \<noteq> Some (expectedPassword env) \<longrightarrow>
            handle r P env request s =
              (Inr (json_response (JObj [(''success'', JBool False), (''error'', JStr ''Unauthorized'')]) 401), s))
       \<and> (req_headers request ''admin-password'' = Some (expectedPassword env) \<longrightarrow>
            (\<exists>resp s' out. handle r P env request s = (Inr resp, s')
               \<and> snd s' = snd s @ [Query (fst (delete_statement r)) (snd (delete_statement r)) out]))"
proof -
  consider "r = AnomaliesClear" | "r = TransactionsClear" | "r = TransactionItemsClear"
    | "r = SubmissionsClear" | "r = IntegrationsClear"
    using assms by (auto simp: table_clearing_routes_def)
  then show ?thesis
  proof cases
    case 1
    then show ?thesis
      using table_clear_gate [of request env anomalies_strings P s]
      by (simp add: handle_def delete_statement_def anomalies_clear_DELETE_def anomalies_strings_def
          unauthorized_response_def)
  next
    case 2
    then show ?thesis
      using table_clear_gate [of request env transactions_strings P s]
      by (simp add: handle_def delete_statement_def transactions_clear_DELETE_def transactions_strings_def
          unauthorized_response_def)
  next
    case 3
    then show ?thesis
      using table_clear_gate [of request env transaction_items_strings P s]
      by (simp add: handle_def delete_statement_def transaction_items_clear_DELETE_def
          transaction_items_strings_def unauthorized_response_def)
  next
    case 4
    then show ?thesis
      using table_clear_gate [of request env submissions_strings P s]
      by (simp add: handle_def delete_statement_def submissions_clear_DELETE_def submissions_strings_def
          unauthorized_response_def)
  next
    case 5
    then show ?thesis
      using integrations_clear_gate [of request env P s]
      by (simp add: handle_def delete_statement_def unauthorized_response_def)
  qed
qed

theorem clearing_routes_gate_witness:
  "AnomaliesClear \<in> set table_clearing_routes
   \<and> req_headers (admin_request (Some ''letmein'')) ''admin-password'' \<noteq> Some (expectedPassword Map.empty)
   \<and> handle AnomaliesClear (stub_platform (Inl NonError) (Inr \<lparr> pg_rowCount = Some 3 \<rparr>)) Map.empty
        (admin_request (Some ''letmein'')) (0, []) =
       (Inr (json_response (JObj [(''success'', JBool False), (''error'', JStr ''Unauthorized'')]) 401), (0, []))
   \<and> req_headers (admin_request (Some ''admin123'')) ''admin-password'' = Some (expectedPassword Map.empty)
   \<and> (\<exists>resp s' out.
         handle AnomaliesClear (stub_platform (Inl NonError) (Inr \<lparr> pg_rowCount = Some 3 \<rparr>)) Map.empty
           (admin_request (Some ''admin123'')) (0, []) = (Inr resp, s')
         \<and> snd s' = [Query ''DELETE FROM anomaly_flags'' None out])"
proof -
  have r: "AnomaliesClear \<in> set table_clearing_routes"
    by (simp add: table_clearing_routes_def)
  have bad: "req_headers (admin_request (Some ''letmein'')) ''admin-password'' \<noteq> Some (expectedPassword Map.empty)"
    by (simp add: admin_request_def expectedPassword_def env_or_def)
  have good: "req_headers (admin_request (Some ''admin123'')) ''admin-password'' = Some (expectedPassword Map.empty)"
    by (simp add: admin_request_def expectedPassword_def env_or_def)
  show ?thesis
    using r bad good
      clearing_routes_gate [OF r, of "admin_request (Some ''letmein'')" Map.empty
        "stub_platform (Inl NonError) (Inr \<lparr> pg_rowCount = Some 3 \<rparr>)" "(0, [])"]
      clearing_routes_gate [OF r, of "admin_request (Some ''admin123'')" Map.empty
        "stub_platform (Inl NonError) (Inr \<lparr> pg_rowCount = Some 3 \<rparr>)" "(0, [])"]
    by (simp add: delete_statement_def)
qed

subsection \<open>The components\<close>

text \<open>
  C5. For every selected resolution action, the payload that \<open>handleResolve\<close> posts to the
  resolution endpoint has exactly the shape the action determines: \<open>MARK_RESOLVED\<close> sends
  \<open>action\<close> and \<open>notes\<close> only; \<open>UPDATE_SUBMISSION\<close> adds \<open>submissionData\<close>;
  \<open>UPDATE_NAICS_CODE\<close> adds \<open>naicsCode\<close>; \<open>UPDATE_PRICE\<close> adds \<open>price\<close> and \<open>currency\<close>.
\<close>

theorem resolution_payload_shape:
  "post_data (handleResolve_post base anomaly_id s) = JObj (requestData s)
   \<and> requestData \<lparr> selectedAction = MARK_RESOLVED, resolutionNotes = notes, submissionData = d \<rparr> =
        [(''action'', JStr ''MARK_RESOLVED''), (''notes'', JStr notes)]
   \<and> requestData \<lparr> selectedAction = UPDATE_SUBMISSION, resolutionNotes = notes, submissionData = d \<rparr> =
        [(''action'', JStr ''UPDATE_SUBMISSION''), (''notes'', JStr notes),
         (''submissionData'', submissionData_json d)]
   \<and> requestData \<lparr> selectedAction = UPDATE_NAICS_CODE, resolutionNotes = notes, submissionData = d \<rparr> =
        [(''action'', JStr ''UPDATE_NAICS_CODE''), (''notes'', JStr notes),
         (''naicsCode'', JStr (naicsCode d))]
   \<and> requestData \<lparr> selectedAction = UPDATE_PRICE, resolutionNotes = notes, submissionData = d \<rparr> =
        [(''action'', JStr ''UPDATE_PRICE''), (''notes'', JStr notes),
         (''price'', JNum (price d)), (''currency'', JStr (currency d))]"
  by (simp add: handleResolve_post_def requestData_def action_value_def)

lemma page_step_interval: "refreshInterval (page_step s e) = refreshInterval s"
  by (cases e) (simp_all add: fetchApiRequests_def Let_def split: fetch_outcome.splits)

lemma foldl_page_step_interval: "refreshInterval (foldl page_step s evs) = refreshInterval s"
  by (induction evs arbitrary: s) (simp_all add: page_step_interval)

text \<open>
  C8. The auto-refresh of the API request list polls at a fixed interval of 5000
  milliseconds: after any sequence of events of the page the interval is 5000, the polling
  effect schedules the fetch with delay 5000 exactly when auto-refresh is enabled (and
  schedules nothing otherwise), and no event changes the interval.
\<close>

theorem polling_interval_fixed:
  "refreshInterval (page_run userId_param evs) = 5000
   \<and> scheduled_interval (page_run userId_param evs) =
        (if autoRefresh (page_run userId_param evs) then Some 5000 else None)
   \<and> refreshInterval (page_step s e) = refreshInterval s"
  by (simp add: page_run_def foldl_page_step_interval page_step_interval scheduled_interval_def
      initial_page_def)

subsection \<open>The clear-database route\<close>

lemma clear_step_eq:
  "clear_step P baseUrl pw key path results (w, tr) =
     (Inr (if fetch_succeeded (fst (fetch P (clear_request baseUrl path pw) w))
           then set_success key results
           else set_error key (step_message (fst (fetch P (clear_request baseUrl path pw) w))) results),
      (snd (fetch P (clear_request baseUrl path pw) w),
       tr @ step_calls (clear_request baseUrl path pw) (fst (fetch P (clear_request baseUrl path pw) w))))"
  by (simp add: clear_step_def prim_eqs eff_defs fetch_succeeded_def step_calls_def step_message_def
      split: sum.splits)

lemma flags_step:
  "flags (if b then set_success key rs else set_error key m rs)
     = map (\<lambda>(k, f). (k, f \<or> (k = key \<and> b))) (flags rs)"
  by (induction rs) (auto simp: flags_def set_success_def set_error_def)

lemma flags_initial:
  "flags initial_results =
     [(''vectordb'', False), (''transactions'', False), (''transactionItems'', False),
      (''submissions'', False), (''anomalies'', False), (''integrations'', False)]"
  by (simp add: flags_def initial_results_def)

lemma count_flags: "length (filter (\<lambda>r. ce_success r) (map snd rs)) = length (filter snd (flags rs))"
  by (induction rs) (auto simp: flags_def)

lemma length_flags: "length (map fst rs) = length (flags rs)"
  by (simp add: flags_def)

lemma all_succeeded_iff: "length (filter P xs) = length xs \<longleftrightarrow> list_all P xs"
proof (induction xs)
  case Nil
  then show ?case by simp
next
  case (Cons x xs)
  show ?case
  proof (cases "P x")
    case True
    with Cons show ?thesis by simp
  next
    case False
    have "length (filter P xs) \<noteq> Suc (length xs)"
      using length_filter_le [of P xs] by linarith
    with False show ?thesis by simp
  qed
qed

lemma summary_response_eq:
  assumes "flags rs = [(k1, b1), (k2, b2), (k3, b3), (k4, b4), (k5, b5), (k6, b6)]"
  shows "\<exists>message.
     summary_response rs = json_response (JObj
       [(''success'', JBool (b1 \<and> b2 \<and> b3 \<and> b4 \<and> b5 \<and> b6)),
        (''message'', JStr message),
        (''results'', results_json rs),
        (''summary'', JObj [(''cleared'', JNum (real (length (filter id [b1, b2, b3, b4, b5, b6])))),
                            (''total'', JNum 6),
                            (''errors'', JNum (6 - real (length (filter id [b1, b2, b3, b4, b5, b6]))))])]) 200"
proof -
  have c: "length (filter (\<lambda>r. ce_success r) (map snd rs)) = length (filter id [b1, b2, b3, b4, b5, b6])"
    unfolding count_flags assms by simp
  have t: "length (map fst rs) = 6"
    unfolding length_flags assms by simp
  have a: "(length (filter id [b1, b2, b3, b4, b5, b6]) = 6) = (b1 \<and> b2 \<and> b3 \<and> b4 \<and> b5 \<and> b6)"
    using all_succeeded_iff [of id "[b1, b2, b3, b4, b5, b6]"] by simp
  show ?thesis
    unfolding summary_response_def summary_body_def Let_def c t a by (intro exI) (simp only: of_nat_numeral)
qed

lemma clear_database_try_authorized:
  assumes auth: "req_headers request ''admin-password'' = Some (expectedPassword env)"
  shows "\<exists>o1 o2 o3 o4 o5 o6 rs s'.
      clear_database_try P env request s = (Inr (summary_response rs), s')
    \<and> flags rs = [(''vectordb'', fetch_succeeded o1), (''transactions'', fetch_succeeded o2),
                   (''transactionItems'', fetch_succeeded o3), (''submissions'', fetch_succeeded o4),
                   (''anomalies'', fetch_succeeded o5), (''integrations'', fetch_succeeded o6)]
    \<and> snd s' = snd s @ concat (map (\<lambda>(path, out).
          step_calls (clear_request (replace_first (req_url request) ''/api/clear-database'' []) path
                       (expectedPassword env)) out)
          (zip clear_paths [o1, o2, o3, o4, o5, o6]))"
proof -
  obtain w tr where s: "s = (w, tr)" by (cases s)
  define rq where "rq = (\<lambda>path. clear_request (replace_first (req_url request) ''/api/clear-database'' []) path
                       (expectedPassword env))"
  define o1 where "o1 = fst (fetch P (rq ''/api/vectordb/clear'') w)"
  define w1 where "w1 = snd (fetch P (rq ''/api/vectordb/clear'') w)"
  define o2 where "o2 = fst (fetch P (rq ''/api/transactions/clear'') w1)"
  define w2 where "w2 = snd (fetch P (rq ''/api/transactions/clear'') w1)"
  define o3 where "o3 = fst (fetch P (rq ''/api/transaction-items/clear'') w2)"
  define w3 where "w3 = snd (fetch P (rq ''/api/transaction-items/clear'') w2)"
  define o4 where "o4 = fst (fetch P (rq ''/api/submissions/clear'') w3)"
  define w4 where "w4 = snd (fetch P (rq ''/api/submissions/clear'') w3)"
  define o5 where "o5 = fst (fetch P (rq ''/api/anomalies/clear'') w4)"
  define w5 where "w5 = snd (fetch P (rq ''/api/anomalies/clear'') w4)"
  define o6 where "o6 = fst (fetch P (rq ''/api/integrations/clear'') w5)"
  define w6 where "w6 = snd (fetch P (rq ''/api/integrations/clear'') w5)"
  define r1 where "r1 = (if fetch_succeeded o1 then set_success ''vectordb'' initial_results
                         else set_error ''vectordb'' (step_message o1) initial_results)"
  define r2 where "r2 = (if fetch_succeeded o2 then set_success ''transactions'' r1
                         else set_error ''transactions'' (step_message o2) r1)"
  define r3 where "r3 = (if fetch_succeeded o3 then set_success ''transactionItems'' r2
                         else set_error ''transactionItems'' (step_message o3) r2)"
  define r4 where "r4 = (if fetch_succeeded o4 then set_success ''submissions'' r3
                         else set_error ''submissions'' (step_message o4) r3)"
  define r5 where "r5 = (if fetch_succeeded o5 then set_success ''anomalies'' r4
                         else set_error ''anomalies'' (step_message o5) r4)"
  define r6 where "r6 = (if fetch_succeeded o6 then set_success ''integrations'' r5
                         else set_error ''integrations'' (step_message o6) r5)"
  have step: "\<And>key path rs w tr. clear_step P (replace_first (req_url request) ''/api/clear-database'' [])
        (expectedPassword env) key path rs (w, tr) =
      (Inr (if fetch_succeeded (fst (fetch P (rq path) w)) then set_success key rs
            else set_error key (step_message (fst (fetch P (rq path) w))) rs),
       (snd (fetch P (rq path) w), tr @ step_calls (rq path) (fst (fetch P (rq path) w))))"
    unfolding rq_def by (rule clear_step_eq)
  have run: "clear_database_try P env request (w, tr) =
      (Inr (summary_response r6),
       (w6, tr @ step_calls (rq ''/api/vectordb/clear'') o1 @ step_calls (rq ''/api/transactions/clear'') o2
              @ step_calls (rq ''/api/transaction-items/clear'') o3 @ step_calls (rq ''/api/submissions/clear'') o4
              @ step_calls (rq ''/api/anomalies/clear'') o5 @ step_calls (rq ''/api/integrations/clear'') o6))"
    unfolding clear_database_try_def Let_def auth header_value_def option.case
    using unauthorized_iff [of "Some (expectedPassword env)" env]
    by (simp only: step eff_bind_def eff_return_def eff_lift_def respond_summary_eq prod.case sum.case
        if_False simp_thms append_assoc
        o1_def [symmetric] w1_def [symmetric] r1_def [symmetric]
        o2_def [symmetric] w2_def [symmetric] r2_def [symmetric]
        o3_def [symmetric] w3_def [symmetric] r3_def [symmetric]
        o4_def [symmetric] w4_def [symmetric] r4_def [symmetric]
        o5_def [symmetric] w5_def [symmetric] r5_def [symmetric]
        o6_def [symmetric] w6_def [symmetric] r6_def [symmetric])
  have fl: "flags r6 = [(''vectordb'', fetch_succeeded o1), (''transactions'', fetch_succeeded o2),
                   (''transactionItems'', fetch_succeeded o3), (''submissions'', fetch_succeeded o4),
                   (''anomalies'', fetch_succeeded o5), (''integrations'', fetch_succeeded o6)]"
    unfolding r6_def r5_def r4_def r3_def r2_def r1_def flags_step flags_initial by simp
  have tr: "snd (w6, tr @ step_calls (rq ''/api/vectordb/clear'') o1 @ step_calls (rq ''/api/transactions/clear'') o2
              @ step_calls (rq ''/api/transaction-items/clear'') o3 @ step_calls (rq ''/api/submissions/clear'') o4
              @ step_calls (rq ''/api/anomalies/clear'') o5 @ step_calls (rq ''/api/integrations/clear'') o6)
       = snd (w, tr) @ concat (map (\<lambda>(path, out).
          step_calls (clear_request (replace_first (req_url request) ''/api/clear-database'' []) path
                       (expectedPassword env)) out)
          (zip clear_paths [o1, o2, o3, o4, o5, o6]))"
    by (simp add: clear_paths_def rq_def)
  show ?thesis
    unfolding s by (intro exI conjI) (rule run, rule fl, rule tr)
qed

lemma clear_database_POST_eq:
  assumes "clear_database_try P env request s = (Inr resp, s')"
  shows "clear_database_POST P env request s = (Inr resp, s')"
  using assms by (simp add: clear_database_POST_def try_catch_def)

lemma count_succeeded:
  "length (filter id (map fetch_succeeded outs)) = length (filter fetch_succeeded outs)"
  by (simp add: length_filter_map comp_def)

lemma clear_database_POST_gate:
  assumes "req_headers request ''admin-password'' \<noteq> Some (expectedPassword env)"
  shows "clear_database_POST P env request s = (Inr unauthorized_response, s)"
  using assms
  by (simp add: clear_database_POST_def clear_database_try_def try_catch_def eff_return_def eff_lift_def
      respond_eqs unauthorized_iff)

lemma clear_database_POST_authorized:
  assumes "req_headers request ''admin-password'' = Some (expectedPassword env)"
  shows "\<exists>o1 o2 o3 o4 o5 o6 resp fs s'.
      clear_database_POST P env request s = (Inr resp, s')
    \<and> snd s' = snd s @ concat (map (\<lambda>(path, out).
          step_calls (clear_request (replace_first (req_url request) ''/api/clear-database'' []) path
                       (expectedPassword env)) out)
          (zip clear_paths [o1, o2, o3, o4, o5, o6]))
    \<and> http_status resp = 200
    \<and> json_body resp = JObj fs
    \<and> own_prop fs ''success'' =
          JBool (fetch_succeeded o1 \<and> fetch_succeeded o2 \<and> fetch_succeeded o3
                 \<and> fetch_succeeded o4 \<and> fetch_succeeded o5 \<and> fetch_succeeded o6)
    \<and> own_prop fs ''summary'' =
          JObj [(''cleared'', JNum (real (length (filter fetch_succeeded [o1, o2, o3, o4, o5, o6])))),
                (''total'', JNum 6),
                (''errors'', JNum (6 - real (length (filter fetch_succeeded [o1, o2, o3, o4, o5, o6]))))]"
proof -
  from clear_database_try_authorized [OF assms, of P s]
  obtain o1 o2 o3 o4 o5 o6 rs s' where
    run: "clear_database_try P env request s = (Inr (summary_response rs), s')"
    and fl: "flags rs = [(''vectordb'', fetch_succeeded o1), (''transactions'', fetch_succeeded o2),
                   (''transactionItems'', fetch_succeeded o3), (''submissions'', fetch_succeeded o4),
                   (''anomalies'', fetch_succeeded o5), (''integrations'', fetch_succeeded o6)]"
    and tr: "snd s' = snd s @ concat (map (\<lambda>(path, out).
          step_calls (clear_request (replace_first (req_url request) ''/api/clear-database'' []) path
                       (expectedPassword env)) out)
          (zip clear_paths [o1, o2, o3, o4, o5, o6]))"
    by (elim exE conjE)
  from summary_response_eq [OF fl]
  obtain message where
    resp: "summary_response rs = json_response (JObj
       [(''success'', JBool (fetch_succeeded o1 \<and> fetch_succeeded o2 \<and> fetch_succeeded o3
                 \<and> fetch_succeeded o4 \<and> fetch_succeeded o5 \<and> fetch_succeeded o6)),
        (''message'', JStr message),
        (''results'', results_json rs),
        (''summary'', JObj [(''cleared'', JNum (real (length (filter id (map fetch_succeeded [o1, o2, o3, o4, o5, o6]))))),
                            (''total'', JNum 6),
                            (''errors'', JNum (6 - real (length (filter id (map fetch_succeeded [o1, o2, o3, o4, o5, o6])))))])]) 200"
    by auto
  define fs where "fs =
       [(''success'', JBool (fetch_succeeded o1 \<and> fetch_succeeded o2 \<and> fetch_succeeded o3
                 \<and> fetch_succeeded o4 \<and> fetch_succeeded o5 \<and> fetch_succeeded o6)),
        (''message'', JStr message),
        (''results'', results_json rs),
        (''summary'', JObj [(''cleared'', JNum (real (length (filter fetch_succeeded [o1, o2, o3, o4, o5, o6])))),
                            (''total'', JNum 6),
                            (''errors'', JNum (6 - real (length (filter fetch_succeeded [o1, o2, o3, o4, o5, o6]))))])]"
  have resp': "summary_response rs = json_response (JObj fs) 200"
    unfolding resp count_succeeded fs_def by (rule refl)
  have post: "clear_database_POST P env request s = (Inr (json_response (JObj fs) 200), s')"
    using clear_database_POST_eq [OF run] resp' by simp
  have st: "http_status (json_response (JObj fs) 200) = 200"
    and bd: "json_body (json_response (JObj fs) 200) = JObj fs"
    by (simp_all add: json_response_def)
  have su: "own_prop fs ''success'' =
          JBool (fetch_succeeded o1 \<and> fetch_succeeded o2 \<and> fetch_succeeded o3
                 \<and> fetch_succeeded o4 \<and> fetch_succeeded o5 \<and> fetch_succeeded o6)"
    by (simp add: fs_def own_prop_def)
  have sm: "own_prop fs ''summary'' =
          JObj [(''cleared'', JNum (real (length (filter fetch_succeeded [o1, o2, o3, o4, o5, o6])))),
                (''total'', JNum 6),
                (''errors'', JNum (6 - real (length (filter fetch_succeeded [o1, o2, o3, o4, o5, o6]))))]"
    by (simp add: fs_def own_prop_def)
  show ?thesis
    by (intro exI conjI) (rule post, rule tr, rule st, rule bd, rule su, rule sm)
qed

text \<open>
  C2 (as amended). A request whose \<open>admin-password\<close> header is absent or differs from the
  expected password is answered 401 with \<open>{ success: false, error: "Unauthorized" }\<close>, and
  nothing is attempted: no call is made and the state is unchanged. For every request whose
  header equals the expected password, the clear-database handler attempts all six clears
  (vectordb, transactions, transactionItems, submissions, anomalies, integrations), in this
  order and whatever their outcomes, answers with status 200, and returns \<open>success: true\<close> if
  and only if all six succeeded, with \<open>summary.cleared\<close> the number of successful clears,
  \<open>summary.total = 6\<close> and \<open>summary.errors\<close> the total minus the cleared.
\<close>

theorem clear_database_summary:
  "(req_headers request ''admin-password'' \<noteq> Some (expectedPassword env) \<longrightarrow>
      clear_database_POST P env request s =
        (Inr \<lparr> http_status = 401,
            json_body = JObj [(''success'', JBool False), (''error'', JStr ''Unauthorized'')] \<rparr>, s))
   \<and> (req_headers request ''admin-password'' = Some (expectedPassword env) \<longrightarrow>
      (\<exists>o1 o2 o3 o4 o5 o6 resp fs s'.
      clear_database_POST P env request s = (Inr resp, s')
    \<and> snd s' = snd s @ concat (map (\<lambda>(path, out).
          step_calls (clear_request (replace_first (req_url request) ''/api/clear-database'' []) path
                       (expectedPassword env)) out)
          (zip clear_paths [o1, o2, o3, o4, o5, o6]))
    \<and> http_status resp = 200
    \<and> json_body resp = JObj fs
    \<and> own_prop fs ''success'' =
          JBool (fetch_succeeded o1 \<and> fetch_succeeded o2 \<and> fetch_succeeded o3
                 \<and> fetch_succeeded o4 \<and> fetch_succeeded o5 \<and> fetch_succeeded o6)
    \<and> own_prop fs ''summary'' =
          JObj [(''cleared'', JNum (real (length (filter fetch_succeeded [o1, o2, o3, o4, o5, o6])))),
                (''total'', JNum 6),
                (''errors'', JNum (6 - real (length (filter fetch_succeeded [o1, o2, o3, o4, o5, o6]))))]))"
proof (intro conjI impI)
  assume "req_headers request ''admin-password'' \<noteq> Some (expectedPassword env)"
  from clear_database_POST_gate [OF this, of P s]
  show "clear_database_POST P env request s =
        (Inr \<lparr> http_status = 401,
            json_body = JObj [(''success'', JBool False), (''error'', JStr ''Unauthorized'')] \<rparr>, s)"
    by (simp add: unauthorized_response_def json_response_def)
next
  assume "req_headers request ''admin-password'' = Some (expectedPassword env)"
  then show "\<exists>o1 o2 o3 o4 o5 o6 resp fs s'.
      clear_database_POST P env request s = (Inr resp, s')
    \<and> snd s' = snd s @ concat (map (\<lambda>(path, out).
          step_calls (clear_request (replace_first (req_url request) ''/api/clear-database'' []) path
                       (expectedPassword env)) out)
          (zip clear_paths [o1, o2, o3, o4, o5, o6]))
    \<and> http_status resp = 200
    \<and> json_body resp = JObj fs
    \<and> own_prop fs ''success'' =
          JBool (fetch_succeeded o1 \<and> fetch_succeeded o2 \<and> fetch_succeeded o3
                 \<and> fetch_succeeded o4 \<and> fetch_succeeded o5 \<and> fetch_succeeded o6)
    \<and> own_prop fs ''summary'' =
          JObj [(''cleared'', JNum (real (length (filter fetch_succeeded [o1, o2, o3, o4, o5, o6])))),
                (''total'', JNum 6),
                (''errors'', JNum (6 - real (length (filter fetch_succeeded [o1, o2, o3, o4, o5, o6]))))]"
    by (rule clear_database_POST_authorized)
qed

theorem clear_database_summary_witness:
  "req_headers (admin_request (Some ''letmein'')) ''admin-password'' \<noteq> Some (expectedPassword Map.empty)
   \<and> clear_database_POST (stub_platform (Inr unavailable) (Inl NonError)) Map.empty (admin_request (Some ''letmein'')) (0, []) =
        (Inr \<lparr> http_status = 401,
            json_body = JObj [(''success'', JBool False), (''error'', JStr ''Unauthorized'')] \<rparr>, (0::nat, []::call list))
   \<and> req_headers (admin_request (Some ''admin123'')) ''admin-password'' = Some (expectedPassword Map.empty)
   \<and> (\<exists>o1 o2 o3 o4 o5 o6 resp fs s'.
      clear_database_POST (stub_platform (Inr unavailable) (Inl NonError)) Map.empty (admin_request (Some ''admin123'')) (0, []) = (Inr resp, s')
    \<and> snd s' = snd (0::nat, []::call list) @ concat (map (\<lambda>(path, out).
          step_calls (clear_request (replace_first (req_url (admin_request (Some ''admin123''))) ''/api/clear-database'' []) path
                       (expectedPassword Map.empty)) out)
          (zip clear_paths [o1, o2, o3, o4, o5, o6]))
    \<and> http_status resp = 200
    \<and> json_body resp = JObj fs
    \<and> own_prop fs ''success'' =
          JBool (fetch_succeeded o1 \<and> fetch_succeeded o2 \<and> fetch_succeeded o3
                 \<and> fetch_succeeded o4 \<and> fetch_succeeded o5 \<and> fetch_succeeded o6)
    \<and> own_prop fs ''summary'' =
          JObj [(''cleared'', JNum (real (length (filter fetch_succeeded [o1, o2, o3, o4, o5, o6])))),
                (''total'', JNum 6),
                (''errors'', JNum (6 - real (length (filter fetch_succeeded [o1, o2, o3, o4, o5, o6]))))])"
proof -
  have bad: "req_headers (admin_request (Some ''letmein'')) ''admin-password'' \<noteq> Some (expectedPassword Map.empty)"
    by (simp add: admin_request_def expectedPassword_def env_or_def)
  have good: "req_headers (admin_request (Some ''admin123'')) ''admin-password'' = Some (expectedPassword Map.empty)"
    by (simp add: admin_request_def expectedPassword_def env_or_def)
  note gate = clear_database_summary [where request = "admin_request (Some ''letmein'')"
      and env = Map.empty and P = "stub_platform (Inr unavailable) (Inl NonError)" and s = "(0, [])",
      THEN conjunct1, THEN mp, OF bad]
  note summary = clear_database_summary [where request = "admin_request (Some ''admin123'')"
      and env = Map.empty and P = "stub_platform (Inr unavailable) (Inl NonError)" and s = "(0, [])",
      THEN conjunct2, THEN mp, OF good]
  show ?thesis
    by (rule conjI [OF bad conjI [OF gate conjI [OF good summary]]])
qed

theorem clear_database_unauthorized_counterexample:
  "clear_database_POST (stub_platform (Inr accepted) (Inr \<lparr> pg_rowCount = Some 0 \<rparr>)) Map.empty
       (admin_request None) (0, []) =
     (Inr \<lparr> http_status = 401,
            json_body = JObj [(''success'', JBool False), (''error'', JStr ''Unauthorized'')] \<rparr>, (0, []))"
  by (simp add: clear_database_POST_def clear_database_try_def try_catch_def eff_return_def eff_lift_def respond_eqs
      unauthorized_def admin_request_def unauthorized_response_def json_response_def)

subsection \<open>The impersonate route\<close>

lemma destructure_userId_eq:
  "destructure_userId body = Inr userId \<Longrightarrow> get_prop body ''userId'' = Inr userId"
  by (cases body) (simp_all add: destructure_userId_def)

lemma impersonate_try_success:
  assumes run: "impersonate_try P env request (w, tr) = (Inr resp, s')"
    and ok: "get_prop (json_body resp) ''success'' = Inr (JBool True)"
  shows "\<exists>body userId token rendered.
      req_json request = Inr body \<and> get_prop body ''userId'' = Inr userId \<and> truthy userId
    \<and> js_String (Number_toString P) userId = Inr rendered
    \<and> resp = json_response (JObj
         [(''success'', JBool True),
          (''magicLink'', JStr (env_or env ''NEXT_PUBLIC_APP_URL'' ''https://app.cooler.dev''
              @ ''/transactions?impersonate='' @ rendered
              @ ''&token='' @ token)),
          (''token'', JStr token),
          (''expiresAt'', JStr (toISOString P (fst (Date_now P (snd (randomUUID P w))) + 300000))),
          (''message'', JStr ''Magic link generated successfully'')]) 200
    \<and> snd s' = tr @
         [RequestJson (Inr body),
          Sign \<lparr> jwt_payload = JObj
                    [(''userId'', userId),
                     (''adminId'', JStr ''admin''),
                     (''readOnly'', JBool True),
                     (''expiresAt'', JStr (toISOString P (fst (Date_now P (snd (randomUUID P w))) + 300000))),
                     (''nonce'', JStr (fst (randomUUID P w))),
                     (''iat'', JNum (real_of_int
                        (fst (Date_now P (snd (Date_now P (snd (randomUUID P w))))) div 1000)))],
                  jwt_protectedHeader = JObj [(''alg'', JStr ''HS256'')],
                  jwt_expirationTime = ''5m'' \<rparr>
               (env_or env ''ADMIN_JWT_SECRET'' ''admin-secret-key-change-in-production'')
               (Inr token)]"
  using run ok
  by (auto simp: impersonate_try_def prim_eqs eff_defs Let_def json_response_def own_prop_def
      dest: destructure_userId_eq split: if_splits sum.splits)

lemma impersonate_POST_success:
  assumes run: "impersonate_POST P env request s = (Inr resp, s')"
    and ok: "get_prop (json_body resp) ''success'' = Inr (JBool True)"
  shows "impersonate_try P env request s = (Inr resp, s')"
proof -
  obtain r s1 where p: "impersonate_try P env request s = (r, s1)"
    by (cases "impersonate_try P env request s")
  show ?thesis
  proof (cases r)
    case (Inl e)
    with p run have "resp = failure_response ''Failed to generate magic link''
        (JStr (error_message ''Unknown error'' e)) 500"
      by (simp add: impersonate_POST_def try_catch_def eff_return_def eff_lift_def respond_eqs)
    with ok show ?thesis
      by (simp add: failure_response_def json_response_def own_prop_def)
  next
    case (Inr x)
    with p run show ?thesis
      by (simp add: impersonate_POST_def try_catch_def)
  qed
qed

lemma show_nat_301000: "show_nat 301000 = ''301000''"
  by (simp add: show_nat.simps digit_char_def)

text \<open>
  C4. The magic link of the impersonate route is short-lived. For every successful request
  (a response with \<open>success: true\<close>): the returned \<open>expiresAt\<close> is the instant of creation (the
  reading of \<open>Date.now()\<close> taken after the nonce is drawn) plus exactly 5 minutes, that is
  300000 milliseconds; the token returned is the one signed by the only signing call, whose
  expiration time is set to \<open>5m\<close> and whose payload carries the same \<open>expiresAt\<close>; and the
  returned \<open>magicLink\<close> is the application URL followed by
  \<^verbatim>\<open>/transactions?impersonate=<userId>&token=<token>\<close>, with the \<open>userId\<close> of the request
  body (rendered as a template literal renders it: a string is embedded as it is; a success
  implies that the rendering did not throw) and that token.
\<close>

theorem magic_link_short_lived:
  assumes "impersonate_POST P env request s = (Inr resp, s')"
    and "get_prop (json_body resp) ''success'' = Inr (JBool True)"
  shows "\<exists>body userId token rendered fs builder payload.
      req_json request = Inr body \<and> get_prop body ''userId'' = Inr userId \<and> truthy userId
    \<and> js_String (Number_toString P) userId = Inr rendered
    \<and> snd s' = snd s @ [RequestJson (Inr body),
          Sign builder (env_or env ''ADMIN_JWT_SECRET'' ''admin-secret-key-change-in-production'') (Inr token)]
    \<and> jwt_expirationTime builder = ''5m''
    \<and> jwt_payload builder = JObj payload
    \<and> own_prop payload ''userId'' = userId
    \<and> own_prop payload ''expiresAt'' =
          JStr (toISOString P (fst (Date_now P (snd (randomUUID P (fst s)))) + 5 * 60 * 1000))
    \<and> http_status resp = 200
    \<and> json_body resp = JObj fs
    \<and> own_prop fs ''expiresAt'' =
          JStr (toISOString P (fst (Date_now P (snd (randomUUID P (fst s)))) + 5 * 60 * 1000))
    \<and> own_prop fs ''token'' = JStr token
    \<and> own_prop fs ''magicLink'' =
          JStr (env_or env ''NEXT_PUBLIC_APP_URL'' ''https://app.cooler.dev''
                @ ''/transactions?impersonate='' @ rendered
                @ ''&token='' @ token)"
proof -
  obtain w tr where s: "s = (w, tr)" by (cases s)
  have run: "impersonate_try P env request (w, tr) = (Inr resp, s')"
    using impersonate_POST_success [OF assms] by (simp add: s)
  from impersonate_try_success [OF run assms(2)]
  obtain body userId token rendered where
    b: "req_json request = Inr body" and u: "get_prop body ''userId'' = Inr userId" and t: "truthy userId"
    and rd: "js_String (Number_toString P) userId = Inr rendered"
    and r: "resp = json_response (JObj
         [(''success'', JBool True),
          (''magicLink'', JStr (env_or env ''NEXT_PUBLIC_APP_URL'' ''https://app.cooler.dev''
              @ ''/transactions?impersonate='' @ rendered
              @ ''&token='' @ token)),
          (''token'', JStr token),
          (''expiresAt'', JStr (toISOString P (fst (Date_now P (snd (randomUUID P w))) + 300000))),
          (''message'', JStr ''Magic link generated successfully'')]) 200"
    and c: "snd s' = tr @
         [RequestJson (Inr body),
          Sign \<lparr> jwt_payload = JObj
                    [(''userId'', userId),
                     (''adminId'', JStr ''admin''),
                     (''readOnly'', JBool True),
                     (''expiresAt'', JStr (toISOString P (fst (Date_now P (snd (randomUUID P w))) + 300000))),
                     (''nonce'', JStr (fst (randomUUID P w))),
                     (''iat'', JNum (real_of_int
                        (fst (Date_now P (snd (Date_now P (snd (randomUUID P w))))) div 1000)))],
                  jwt_protectedHeader = JObj [(''alg'', JStr ''HS256'')],
                  jwt_expirationTime = ''5m'' \<rparr>
               (env_or env ''ADMIN_JWT_SECRET'' ''admin-secret-key-change-in-production'')
               (Inr token)]"
    by (elim exE conjE)
  define payload where "payload =
       [(''userId'', userId),
        (''adminId'', JStr ''admin''),
        (''readOnly'', JBool True),
        (''expiresAt'', JStr (toISOString P (fst (Date_now P (snd (randomUUID P w))) + 300000))),
        (''nonce'', JStr (fst (randomUUID P w))),
        (''iat'', JNum (real_of_int
           (fst (Date_now P (snd (Date_now P (snd (randomUUID P w))))) div 1000)))]"
  define builder where "builder =
       \<lparr> jwt_payload = JObj payload, jwt_protectedHeader = JObj [(''alg'', JStr ''HS256'')],
         jwt_expirationTime = ''5m'' \<rparr>"
  define fs where "fs =
         [(''success'', JBool True),
          (''magicLink'', JStr (env_or env ''NEXT_PUBLIC_APP_URL'' ''https://app.cooler.dev''
              @ ''/transactions?impersonate='' @ rendered
              @ ''&token='' @ token)),
          (''token'', JStr token),
          (''expiresAt'', JStr (toISOString P (fst (Date_now P (snd (randomUUID P w))) + 300000))),
          (''message'', JStr ''Magic link generated successfully'')]"
  have c': "snd s' = snd s @ [RequestJson (Inr body),
          Sign builder (env_or env ''ADMIN_JWT_SECRET'' ''admin-secret-key-change-in-production'') (Inr token)]"
    unfolding c s builder_def payload_def by simp
  have e: "jwt_expirationTime builder = ''5m''" and pl: "jwt_payload builder = JObj payload"
    by (simp_all add: builder_def)
  have pu: "own_prop payload ''userId'' = userId"
    and pe: "own_prop payload ''expiresAt'' =
          JStr (toISOString P (fst (Date_now P (snd (randomUUID P (fst s)))) + 5 * 60 * 1000))"
    by (simp_all add: payload_def own_prop_def s)
  have st: "http_status resp = 200" and bd: "json_body resp = JObj fs"
    by (simp_all add: r fs_def json_response_def)
  have fe: "own_prop fs ''expiresAt'' =
          JStr (toISOString P (fst (Date_now P (snd (randomUUID P (fst s)))) + 5 * 60 * 1000))"
    and ft: "own_prop fs ''token'' = JStr token"
    and fm: "own_prop fs ''magicLink'' =
          JStr (env_or env ''NEXT_PUBLIC_APP_URL'' ''https://app.cooler.dev''
                @ ''/transactions?impersonate='' @ rendered
                @ ''&token='' @ token)"
    by (simp_all add: fs_def own_prop_def s)
  show ?thesis
    by (intro exI conjI)
      (rule b, rule u, rule t, rule rd, rule c', rule e, rule pl, rule pu, rule pe, rule st, rule bd,
       rule fe, rule ft, rule fm)
qed

theorem magic_link_short_lived_witness:
  "impersonate_POST (stub_platform (Inl NonError) (Inl NonError)) Map.empty (bearer_request (JObj [(''userId'', JStr ''cus_42'')])) (0, []) = (Inr \<lparr> http_status = 200,
            json_body = JObj
              [(''success'', JBool True),
               (''magicLink'', JStr ''https://app.cooler.dev/transactions?impersonate=cus_42&token=signed''),
               (''token'', JStr ''signed''),
               (''expiresAt'', JStr ''301000''),
               (''message'', JStr ''Magic link generated successfully'')] \<rparr>, (5::nat, [RequestJson (Inr (JObj [(''userId'', JStr ''cus_42'')])),
          Sign \<lparr> jwt_payload = JObj
                    [(''userId'', JStr ''cus_42''), (''adminId'', JStr ''admin''),
                     (''readOnly'', JBool True), (''expiresAt'', JStr ''301000''),
                     (''nonce'', JStr ''nonce''), (''iat'', JNum 2)],
                 jwt_protectedHeader = JObj [(''alg'', JStr ''HS256'')],
                 jwt_expirationTime = ''5m'' \<rparr>
            ''admin-secret-key-change-in-production'' (Inr ''signed'')]))
   \<and> get_prop (json_body \<lparr> http_status = 200,
            json_body = JObj
              [(''success'', JBool True),
               (''magicLink'', JStr ''https://app.cooler.dev/transactions?impersonate=cus_42&token=signed''),
               (''token'', JStr ''signed''),
               (''expiresAt'', JStr ''301000''),
               (''message'', JStr ''Magic link generated successfully'')] \<rparr>) ''success'' = Inr (JBool True)
   \<and> toISOString (stub_platform (Inl NonError) (Inl NonError)) (fst (Date_now (stub_platform (Inl NonError) (Inl NonError)) (snd (randomUUID (stub_platform (Inl NonError) (Inl NonError)) (fst (0::nat, []::call list))))) + 5 * 60 * 1000)
        = ''301000''
   \<and> (\<exists>body userId token rendered fs builder payload.
      req_json (bearer_request (JObj [(''userId'', JStr ''cus_42'')])) = Inr body \<and> get_prop body ''userId'' = Inr userId \<and> truthy userId
    \<and> js_String (Number_toString (stub_platform (Inl NonError) (Inl NonError))) userId = Inr rendered
    \<and> snd (5::nat, [RequestJson (Inr (JObj [(''userId'', JStr ''cus_42'')])),
          Sign \<lparr> jwt_payload = JObj
                    [(''userId'', JStr ''cus_42''), (''adminId'', JStr ''admin''),
                     (''readOnly'', JBool True), (''expiresAt'', JStr ''301000''),
                     (''nonce'', JStr ''nonce''), (''iat'', JNum 2)],
                 jwt_protectedHeader = JObj [(''alg'', JStr ''HS256'')],
                 jwt_expirationTime = ''5m'' \<rparr>
            ''admin-secret-key-change-in-production'' (Inr ''signed'')]) = snd (0::nat, []::call list) @ [RequestJson (Inr body),
          Sign builder (env_or Map.empty ''ADMIN_JWT_SECRET'' ''admin-secret-key-change-in-production'') (Inr token)]
    \<and> jwt_expirationTime builder = ''5m''
    \<and> jwt_payload builder = JObj payload
    \<and> own_prop payload ''userId'' = userId
    \<and> own_prop payload ''expiresAt'' =
          JStr (toISOString (stub_platform (Inl NonError) (Inl NonError)) (fst (Date_now (stub_platform (Inl NonError) (Inl NonError)) (snd (randomUUID (stub_platform (Inl NonError) (Inl NonError)) (fst (0::nat, []::call list))))) + 5 * 60 * 1000))
    \<and> http_status \<lparr> http_status = 200,
            json_body = JObj
              [(''success'', JBool True),
               (''magicLink'', JStr ''https://app.cooler.dev/transactions?impersonate=cus_42&token=signed''),
               (''token'', JStr ''signed''),
               (''expiresAt'', JStr ''301000''),
               (''message'', JStr ''Magic link generated successfully'')] \<rparr> = 200
    \<and> json_body \<lparr> http_status = 200,
            json_body = JObj
              [(''success'', JBool True),
               (''magicLink'', JStr ''https://app.cooler.dev/transactions?impersonate=cus_42&token=signed''),
               (''token'', JStr ''signed''),
               (''expiresAt'', JStr ''301000''),
               (''message'', JStr ''Magic link generated successfully'')] \<rparr> = JObj fs
    \<and> own_prop fs ''expiresAt'' =
          JStr (toISOString (stub_platform (Inl NonError) (Inl NonError)) (fst (Date_now (stub_platform (Inl NonError) (Inl NonError)) (snd (randomUUID (stub_platform (Inl NonError) (Inl NonError)) (fst (0::nat, []::call list))))) + 5 * 60 * 1000))
    \<and> own_prop fs ''token'' = JStr token
    \<and> own_prop fs ''magicLink'' =
          JStr (env_or Map.empty ''NEXT_PUBLIC_APP_URL'' ''https://app.cooler.dev''
                @ ''/transactions?impersonate='' @ rendered
                @ ''&token='' @ token))"
proof -
  have run: "impersonate_POST (stub_platform (Inl NonError) (Inl NonError)) Map.empty (bearer_request (JObj [(''userId'', JStr ''cus_42'')])) (0, []) = (Inr \<lparr> http_status = 200,
            json_body = JObj
              [(''success'', JBool True),
               (''magicLink'', JStr ''https://app.cooler.dev/transactions?impersonate=cus_42&token=signed''),
               (''token'', JStr ''signed''),
               (''expiresAt'', JStr ''301000''),
               (''message'', JStr ''Magic link generated successfully'')] \<rparr>, (5::nat, [RequestJson (Inr (JObj [(''userId'', JStr ''cus_42'')])),
          Sign \<lparr> jwt_payload = JObj
                    [(''userId'', JStr ''cus_42''), (''adminId'', JStr ''admin''),
                     (''readOnly'', JBool True), (''expiresAt'', JStr ''301000''),
                     (''nonce'', JStr ''nonce''), (''iat'', JNum 2)],
                 jwt_protectedHeader = JObj [(''alg'', JStr ''HS256'')],
                 jwt_expirationTime = ''5m'' \<rparr>
            ''admin-secret-key-change-in-production'' (Inr ''signed'')]))"
    by (simp add: impersonate_POST_def impersonate_try_def bearer_request_def stub_platform_def
        unauthorized_def prim_eqs eff_defs Let_def destructure_userId_def own_prop_def env_or_def
        json_response_def show_nat_301000)
  have ok: "get_prop (json_body \<lparr> http_status = 200,
            json_body = JObj
              [(''success'', JBool True),
               (''magicLink'', JStr ''https://app.cooler.dev/transactions?impersonate=cus_42&token=signed''),
               (''token'', JStr ''signed''),
               (''expiresAt'', JStr ''301000''),
               (''message'', JStr ''Magic link generated successfully'')] \<rparr>) ''success'' = Inr (JBool True)"
    by (simp add: own_prop_def)
  have iso: "toISOString (stub_platform (Inl NonError) (Inl NonError)) (fst (Date_now (stub_platform (Inl NonError) (Inl NonError)) (snd (randomUUID (stub_platform (Inl NonError) (Inl NonError)) (fst (0::nat, []::call list))))) + 5 * 60 * 1000)
      = ''301000''"
    by (simp add: stub_platform_def show_nat_301000)
  note concl = magic_link_short_lived [OF run ok]
  show ?thesis
    by (rule conjI [OF run conjI [OF ok conjI [OF iso concl]]])
qed

text \<open>A \<open>userId\<close> that cannot be rendered: the token is signed, then the template literal
  throws, and the request is answered 500.\<close>

lemma impersonate_unrenderable_example:
  "fst (impersonate_POST (stub_platform (Inl NonError) (Inl NonError)) Map.empty
          (bearer_request (JObj [(''userId'', JObj [(''toString'', JNum 1)])])) (0, []))
     = Inr (failure_response ''Failed to generate magic link''
              (JStr ''Cannot convert object to primitive value'') 500)"
  by (simp add: impersonate_POST_def impersonate_try_def bearer_request_def stub_platform_def
      unauthorized_def prim_eqs eff_defs Let_def destructure_userId_def own_prop_def env_or_def
      error_message_def)

subsection \<open>The transactions route\<close>

lemma get_prop_Inr: "get_prop v k = Inr x \<Longrightarrow> x = prop_of v k"
  by (cases v) (auto simp: prop_of_def)

lemma format_tx_Inr: "format_tx tx = Inr y \<Longrightarrow> y = spec_reshape tx"
  by (auto simp: format_tx_def sum_bind_def spec_reshape_def split: sum.splits dest!: get_prop_Inr)

lemma map_throwing_Inr:
  "map_throwing format_tx xs = Inr ys \<Longrightarrow> ys = map spec_reshape xs"
proof (induction xs arbitrary: ys)
  case Nil
  then show ?case by simp
next
  case (Cons x xs)
  then show ?case
    by (auto simp: sum_bind_def split: sum.splits dest: format_tx_Inr)
qed

lemma recentTransactions_Inr:
  assumes "recentTransactions data = Inr v"
  shows "\<exists>txs. or_else (prop_of data ''recentTransactions'') (JArr []) = JArr txs
           \<and> v = JArr (map spec_reshape (take 7 txs))"
  using assms
  by (auto simp: recentTransactions_def sum_bind_def split: sum.splits jsval.splits
      dest!: get_prop_Inr map_throwing_Inr)

lemma totalCount_Inr:
  assumes "totalCount data = Inr v"
  shows "v = or_else (prop_of (prop_of data ''counts'') ''transactions'') (JNum 0)"
  using assms
  by (auto simp: totalCount_def sum_bind_def prop_of_def split: sum.splits jsval.splits
      dest!: get_prop_Inr)

lemma transactions_try_success:
  assumes run: "transactions_try P env userId request (w, tr) = (Inr resp, s')"
    and ok: "get_prop (json_body resp) ''success'' = Inr (JBool True)"
  shows "\<exists>r data recent total.
      ok r \<and> resp_json r = Inr data
    \<and> recentTransactions data = Inr recent \<and> totalCount data = Inr total
    \<and> snd s' = tr @
         [Fetch \<lparr> fr_url = api_base env @ ''/admin/customers/'' @ userId @ ''/database-counts'',
                   fr_method = ''GET'', fr_headers = bearer_headers, fr_timeout = None \<rparr> (Inr r),
          ReadJson (Inr data)]
    \<and> resp = json_response (JObj
         [(''success'', JBool True),
          (''userId'', JStr userId),
          (''transactions'', recent),
          (''totalCount'', total),
          (''timestamp'', JStr (toISOString P (fst (Date_now P
              (snd (fetch P \<lparr> fr_url = api_base env @ ''/admin/customers/'' @ userId @ ''/database-counts'',
                   fr_method = ''GET'', fr_headers = bearer_headers, fr_timeout = None \<rparr> w))))))]) 200"
  using run ok
  by (auto simp: transactions_try_def prim_eqs respond_failure_eq body_status_literal eff_defs Let_def json_response_def
      own_prop_def failure_response_def split: if_splits sum.splits)

lemma transactions_GET_success:
  assumes run: "transactions_GET P env userId request s = (Inr resp, s')"
    and ok: "get_prop (json_body resp) ''success'' = Inr (JBool True)"
  shows "transactions_try P env userId request s = (Inr resp, s')"
proof -
  obtain r s1 where p: "transactions_try P env userId request s = (r, s1)"
    by (cases "transactions_try P env userId request s")
  show ?thesis
  proof (cases r)
    case (Inl e)
    with p run have "resp = failure_response ''Failed to fetch transactions''
        (JStr (error_message ''Unknown error'' e)) 500"
      by (simp add: transactions_GET_def try_catch_def eff_return_def eff_lift_def respond_eqs)
    with ok show ?thesis
      by (simp add: failure_response_def json_response_def own_prop_def)
  next
    case (Inr x)
    with p run show ?thesis
      by (simp add: transactions_GET_def try_catch_def)
  qed
qed

text \<open>
  C9. For every successful response of the transactions GET route (\<open>success: true\<close>): the
  upstream answer \<open>data\<close> was read from one GET of \<open>database-counts\<close>; its
  \<open>recentTransactions\<close> is a list \<open>txs\<close> (the empty list when the property is absent or
  falsy); the \<open>transactions\<close> array of the response is the first 7 elements of \<open>txs\<close>, in the
  upstream order, each reshaped to \<open>{ id, dateCreated, status, itemCount, stripeUsageId }\<close>
  with \<open>status\<close> taken from \<open>statusFootprint\<close> and \<open>itemCount\<close> defaulting to 0, so it has at
  most 7 elements; and \<open>totalCount\<close> is the upstream \<open>counts.transactions\<close>, or 0 when that is
  absent (or falsy).
\<close>

theorem transactions_first_seven:
  assumes "transactions_GET P env userId request s = (Inr resp, s')"
    and "get_prop (json_body resp) ''success'' = Inr (JBool True)"
  shows "\<exists>r data txs fs.
      snd s' = snd s @
         [Fetch \<lparr> fr_url = api_base env @ ''/admin/customers/'' @ userId @ ''/database-counts'',
                   fr_method = ''GET'', fr_headers = bearer_headers, fr_timeout = None \<rparr> (Inr r),
          ReadJson (Inr data)]
    \<and> or_else (prop_of data ''recentTransactions'') (JArr []) = JArr txs
    \<and> http_status resp = 200
    \<and> json_body resp = JObj fs
    \<and> own_prop fs ''transactions'' = JArr (map spec_reshape (take 7 txs))
    \<and> length (map spec_reshape (take 7 txs)) \<le> 7
    \<and> own_prop fs ''totalCount'' = or_else (prop_of (prop_of data ''counts'') ''transactions'') (JNum 0)"
proof -
  obtain w tr where s: "s = (w, tr)" by (cases s)
  have run: "transactions_try P env userId request (w, tr) = (Inr resp, s')"
    using transactions_GET_success [OF assms] by (simp add: s)
  let ?rq = "\<lparr> fr_url = api_base env @ ''/admin/customers/'' @ userId @ ''/database-counts'',
                   fr_method = ''GET'', fr_headers = bearer_headers, fr_timeout = None \<rparr>"
  from transactions_try_success [OF run assms(2)]
  obtain r data recent total where
    rec: "recentTransactions data = Inr recent" and tot: "totalCount data = Inr total"
    and c: "snd s' = tr @ [Fetch ?rq (Inr r), ReadJson (Inr data)]"
    and resp: "resp = json_response (JObj
         [(''success'', JBool True),
          (''userId'', JStr userId),
          (''transactions'', recent),
          (''totalCount'', total),
          (''timestamp'', JStr (toISOString P (fst (Date_now P (snd (fetch P ?rq w))))))]) 200"
    by (elim exE conjE)
  from recentTransactions_Inr [OF rec]
  obtain txs where l: "or_else (prop_of data ''recentTransactions'') (JArr []) = JArr txs"
    and recent: "recent = JArr (map spec_reshape (take 7 txs))"
    by (elim exE conjE)
  note total = totalCount_Inr [OF tot]
  define fs where "fs =
         [(''success'', JBool True),
          (''userId'', JStr userId),
          (''transactions'', recent),
          (''totalCount'', total),
          (''timestamp'', JStr (toISOString P (fst (Date_now P (snd (fetch P ?rq w))))))]"
  have c': "snd s' = snd s @ [Fetch ?rq (Inr r), ReadJson (Inr data)]"
    using c by (simp add: s)
  have st: "http_status resp = 200" and bd: "json_body resp = JObj fs"
    by (simp_all add: resp fs_def json_response_def)
  have tx: "own_prop fs ''transactions'' = JArr (map spec_reshape (take 7 txs))"
    by (simp add: fs_def own_prop_def recent)
  have len: "length (map spec_reshape (take 7 txs)) \<le> 7"
    by simp
  have tc: "own_prop fs ''totalCount'' = or_else (prop_of (prop_of data ''counts'') ''transactions'') (JNum 0)"
    by (simp add: fs_def own_prop_def total)
  show ?thesis
    by (intro exI conjI) (rule c', rule l, rule st, rule bd, rule tx, rule len, rule tc)
qed

lemma show_nat_1000: "show_nat 1000 = ''1000''"
  by (simp add: show_nat.simps digit_char_def)

theorem transactions_first_seven_witness:
  "transactions_GET (stub_platform (Inr counts_response) (Inl NonError)) Map.empty ''cus_42'' (bearer_request JNull) (0, []) = (Inr \<lparr> http_status = 200,
            json_body = JObj
              [(''success'', JBool True),
               (''userId'', JStr ''cus_42''),
               (''transactions'',
                JArr [JObj [(''id'', JStr ''t1''), (''dateCreated'', JUndefined), (''status'', JUndefined), (''itemCount'', JNum 2), (''stripeUsageId'', JUndefined)],
                  JObj [(''id'', JStr ''t2''), (''dateCreated'', JUndefined), (''status'', JUndefined), (''itemCount'', JNum 0), (''stripeUsageId'', JUndefined)],
                  JObj [(''id'', JStr ''t3''), (''dateCreated'', JUndefined), (''status'', JUndefined), (''itemCount'', JNum 0), (''stripeUsageId'', JUndefined)],
                  JObj [(''id'', JStr ''t4''), (''dateCreated'', JUndefined), (''status'', JUndefined), (''itemCount'', JNum 0), (''stripeUsageId'', JUndefined)],
                  JObj [(''id'', JStr ''t5''), (''dateCreated'', JUndefined), (''status'', JUndefined), (''itemCount'', JNum 0), (''stripeUsageId'', JUndefined)],
                  JObj [(''id'', JStr ''t6''), (''dateCreated'', JUndefined), (''status'', JUndefined), (''itemCount'', JNum 0), (''stripeUsageId'', JUndefined)],
                  JObj [(''id'', JStr ''t7''), (''dateCreated'', JUndefined), (''status'', JUndefined), (''itemCount'', JNum 0), (''stripeUsageId'', JUndefined)]]),
               (''totalCount'', JNum 8),
               (''timestamp'', JStr ''1000'')] \<rparr>, (2::nat, [Fetch \<lparr> fr_url = ''https://api.cooler.dev/admin/customers/cus_42/database-counts'',
                   fr_method = ''GET'', fr_headers = bearer_headers, fr_timeout = None \<rparr> (Inr counts_response),
          ReadJson (Inr eight_transactions)]))
   \<and> get_prop (json_body \<lparr> http_status = 200,
            json_body = JObj
              [(''success'', JBool True),
               (''userId'', JStr ''cus_42''),
               (''transactions'',
                JArr [JObj [(''id'', JStr ''t1''), (''dateCreated'', JUndefined), (''status'', JUndefined), (''itemCount'', JNum 2), (''stripeUsageId'', JUndefined)],
                  JObj [(''id'', JStr ''t2''), (''dateCreated'', JUndefined), (''status'', JUndefined), (''itemCount'', JNum 0), (''stripeUsageId'', JUndefined)],
                  JObj [(''id'', JStr ''t3''), (''dateCreated'', JUndefined), (''status'', JUndefined), (''itemCount'', JNum 0), (''stripeUsageId'', JUndefined)],
                  JObj [(''id'', JStr ''t4''), (''dateCreated'', JUndefined), (''status'', JUndefined), (''itemCount'', JNum 0), (''stripeUsageId'', JUndefined)],
                  JObj [(''id'', JStr ''t5''), (''dateCreated'', JUndefined), (''status'', JUndefined), (''itemCount'', JNum 0), (''stripeUsageId'', JUndefined)],
                  JObj [(''id'', JStr ''t6''), (''dateCreated'', JUndefined), (''status'', JUndefined), (''itemCount'', JNum 0), (''stripeUsageId'', JUndefined)],
                  JObj [(''id'', JStr ''t7''), (''dateCreated'', JUndefined), (''status'', JUndefined), (''itemCount'', JNum 0), (''stripeUsageId'', JUndefined)]]),
               (''totalCount'', JNum 8),
               (''timestamp'', JStr ''1000'')] \<rparr>) ''success'' = Inr (JBool True)
   \<and> (\<exists>r data txs fs.
      snd (2::nat, [Fetch \<lparr> fr_url = ''https://api.cooler.dev/admin/customers/cus_42/database-counts'',
                   fr_method = ''GET'', fr_headers = bearer_headers, fr_timeout = None \<rparr> (Inr counts_response),
          ReadJson (Inr eight_transactions)]) = snd (0::nat, []::call list) @
         [Fetch \<lparr> fr_url = api_base Map.empty @ ''/admin/customers/'' @ ''cus_42'' @ ''/database-counts'',
                   fr_method = ''GET'', fr_headers = bearer_headers, fr_timeout = None \<rparr> (Inr r),
          ReadJson (Inr data)]
    \<and> or_else (prop_of data ''recentTransactions'') (JArr []) = JArr txs
    \<and> http_status \<lparr> http_status = 200,
            json_body = JObj
              [(''success'', JBool True),
               (''userId'', JStr ''cus_42''),
               (''transactions'',
                JArr [JObj [(''id'', JStr ''t1''), (''dateCreated'', JUndefined), (''status'', JUndefined), (''itemCount'', JNum 2), (''stripeUsageId'', JUndefined)],
                  JObj [(''id'', JStr ''t2''), (''dateCreated'', JUndefined), (''status'', JUndefined), (''itemCount'', JNum 0), (''stripeUsageId'', JUndefined)],
                  JObj [(''id'', JStr ''t3''), (''dateCreated'', JUndefined), (''status'', JUndefined), (''itemCount'', JNum 0), (''stripeUsageId'', JUndefined)],
                  JObj [(''id'', JStr ''t4''), (''dateCreated'', JUndefined), (''status'', JUndefined), (''itemCount'', JNum 0), (''stripeUsageId'', JUndefined)],
                  JObj [(''id'', JStr ''t5''), (''dateCreated'', JUndefined), (''status'', JUndefined), (''itemCount'', JNum 0), (''stripeUsageId'', JUndefined)],
                  JObj [(''id'', JStr ''t6''), (''dateCreated'', JUndefined), (''status'', JUndefined), (''itemCount'', JNum 0), (''stripeUsageId'', JUndefined)],
                  JObj [(''id'', JStr ''t7''), (''dateCreated'', JUndefined), (''status'', JUndefined), (''itemCount'', JNum 0), (''stripeUsageId'', JUndefined)]]),
               (''totalCount'', JNum 8),
               (''timestamp'', JStr ''1000'')] \<rparr> = 200
    \<and> json_body \<lparr> http_status = 200,
            json_body = JObj
              [(''success'', JBool True),
               (''userId'', JStr ''cus_42''),
               (''transactions'',
                JArr [JObj [(''id'', JStr ''t1''), (''dateCreated'', JUndefined), (''status'', JUndefined), (''itemCount'', JNum 2), (''stripeUsageId'', JUndefined)],
                  JObj [(''id'', JStr ''t2''), (''dateCreated'', JUndefined), (''status'', JUndefined), (''itemCount'', JNum 0), (''stripeUsageId'', JUndefined)],
                  JObj [(''id'', JStr ''t3''), (''dateCreated'', JUndefined), (''status'', JUndefined), (''itemCount'', JNum 0), (''stripeUsageId'', JUndefined)],
                  JObj [(''id'', JStr ''t4''), (''dateCreated'', JUndefined), (''status'', JUndefined), (''itemCount'', JNum 0), (''stripeUsageId'', JUndefined)],
                  JObj [(''id'', JStr ''t5''), (''dateCreated'', JUndefined), (''status'', JUndefined), (''itemCount'', JNum 0), (''stripeUsageId'', JUndefined)],
                  JObj [(''id'', JStr ''t6''), (''dateCreated'', JUndefined), (''status'', JUndefined), (''itemCount'', JNum 0), (''stripeUsageId'', JUndefined)],
                  JObj [(''id'', JStr ''t7''), (''dateCreated'', JUndefined), (''status'', JUndefined), (''itemCount'', JNum 0), (''stripeUsageId'', JUndefined)]]),
               (''totalCount'', JNum 8),
               (''timestamp'', JStr ''1000'')] \<rparr> = JObj fs
    \<and> own_prop fs ''transactions'' = JArr (map spec_reshape (take 7 txs))
    \<and> length (map spec_reshape (take 7 txs)) \<le> 7
    \<and> own_prop fs ''totalCount'' = or_else (prop_of (prop_of data ''counts'') ''transactions'') (JNum 0))"
proof -
  have run: "transactions_GET (stub_platform (Inr counts_response) (Inl NonError)) Map.empty ''cus_42'' (bearer_request JNull) (0, []) = (Inr \<lparr> http_status = 200,
            json_body = JObj
              [(''success'', JBool True),
               (''userId'', JStr ''cus_42''),
               (''transactions'',
                JArr [JObj [(''id'', JStr ''t1''), (''dateCreated'', JUndefined), (''status'', JUndefined), (''itemCount'', JNum 2), (''stripeUsageId'', JUndefined)],
                  JObj [(''id'', JStr ''t2''), (''dateCreated'', JUndefined), (''status'', JUndefined), (''itemCount'', JNum 0), (''stripeUsageId'', JUndefined)],
                  JObj [(''id'', JStr ''t3''), (''dateCreated'', JUndefined), (''status'', JUndefined), (''itemCount'', JNum 0), (''stripeUsageId'', JUndefined)],
                  JObj [(''id'', JStr ''t4''), (''dateCreated'', JUndefined), (''status'', JUndefined), (''itemCount'', JNum 0), (''stripeUsageId'', JUndefined)],
                  JObj [(''id'', JStr ''t5''), (''dateCreated'', JUndefined), (''status'', JUndefined), (''itemCount'', JNum 0), (''stripeUsageId'', JUndefined)],
                  JObj [(''id'', JStr ''t6''), (''dateCreated'', JUndefined), (''status'', JUndefined), (''itemCount'', JNum 0), (''stripeUsageId'', JUndefined)],
                  JObj [(''id'', JStr ''t7''), (''dateCreated'', JUndefined), (''status'', JUndefined), (''itemCount'', JNum 0), (''stripeUsageId'', JUndefined)]]),
               (''totalCount'', JNum 8),
               (''timestamp'', JStr ''1000'')] \<rparr>, (2::nat, [Fetch \<lparr> fr_url = ''https://api.cooler.dev/admin/customers/cus_42/database-counts'',
                   fr_method = ''GET'', fr_headers = bearer_headers, fr_timeout = None \<rparr> (Inr counts_response),
          ReadJson (Inr eight_transactions)]))"
    by (simp add: transactions_GET_def transactions_try_def bearer_request_def stub_platform_def
        counts_response_def eight_transactions_def ok_def api_base_def
        unauthorized_def prim_eqs eff_defs Let_def own_prop_def env_or_def or_else_def
        recentTransactions_def totalCount_def format_tx_def sum_bind_def
        json_response_def show_nat_1000)
  have ok: "get_prop (json_body \<lparr> http_status = 200,
            json_body = JObj
              [(''success'', JBool True),
               (''userId'', JStr ''cus_42''),
               (''transactions'',
                JArr [JObj [(''id'', JStr ''t1''), (''dateCreated'', JUndefined), (''status'', JUndefined), (''itemCount'', JNum 2), (''stripeUsageId'', JUndefined)],
                  JObj [(''id'', JStr ''t2''), (''dateCreated'', JUndefined), (''status'', JUndefined), (''itemCount'', JNum 0), (''stripeUsageId'', JUndefined)],
                  JObj [(''id'', JStr ''t3''), (''dateCreated'', JUndefined), (''status'', JUndefined), (''itemCount'', JNum 0), (''stripeUsageId'', JUndefined)],
                  JObj [(''id'', JStr ''t4''), (''dateCreated'', JUndefined), (''status'', JUndefined), (''itemCount'', JNum 0), (''stripeUsageId'', JUndefined)],
                  JObj [(''id'', JStr ''t5''), (''dateCreated'', JUndefined), (''status'', JUndefined), (''itemCount'', JNum 0), (''stripeUsageId'', JUndefined)],
                  JObj [(''id'', JStr ''t6''), (''dateCreated'', JUndefined), (''status'', JUndefined), (''itemCount'', JNum 0), (''stripeUsageId'', JUndefined)],
                  JObj [(''id'', JStr ''t7''), (''dateCreated'', JUndefined), (''status'', JUndefined), (''itemCount'', JNum 0), (''stripeUsageId'', JUndefined)]]),
               (''totalCount'', JNum 8),
               (''timestamp'', JStr ''1000'')] \<rparr>) ''success'' = Inr (JBool True)"
    by (simp add: own_prop_def)
  note concl = transactions_first_seven [OF run ok]
  show ?thesis
    by (rule conjI [OF run conjI [OF ok concl]])
qed

subsection \<open>Response envelopes\<close>

lemma envelope_unauthorized: "envelope a d unauthorized_response"
  by (simp add: envelope_def unauthorized_response_def json_response_def)

lemma envelope_failure: "envelope a d (failure_response err details st)"
  by (simp add: envelope_def failure_response_def json_response_def)

lemma table_clear_envelope:
  "\<exists>resp s'. table_clear_DELETE cs P env request s = (Inr resp, s') \<and> envelope False False resp"
  by (cases s)
    (simp add: table_clear_DELETE_eq table_clear_try_eq Let_def envelope_unauthorized envelope_failure
      split: sum.splits, simp add: envelope_def json_response_def)

lemma integrations_clear_envelope:
  "\<exists>resp s'. integrations_clear_DELETE P env request s = (Inr resp, s') \<and> envelope False False resp"
  by (cases s)
    (simp add: integrations_clear_DELETE_eq integrations_clear_try_eq Let_def envelope_unauthorized
      envelope_failure split: sum.splits, simp add: envelope_def json_response_def)

lemma vectordb_clear_envelope:
  "\<exists>resp s'. vectordb_clear_DELETE P env request s = (Inr resp, s') \<and> envelope False False resp"
  by (cases s)
    (simp add: vectordb_clear_DELETE_def vectordb_clear_try_def prim_eqs respond_failure_eq body_status_literal eff_defs Let_def
      envelope_unauthorized envelope_failure split: sum.splits, simp add: envelope_def json_response_def)

lemma api_requests_envelope:
  "\<exists>resp s'. api_requests_GET P env request s = (Inr resp, s') \<and> envelope False True resp"
  by (cases s)
    (simp add: api_requests_GET_def api_requests_try_def prim_eqs respond_failure_eq body_status_literal eff_defs Let_def
      envelope_unauthorized envelope_failure split: sum.splits, simp add: envelope_def json_response_def)

lemma transactions_envelope:
  "\<exists>resp s'. transactions_GET P env userId request s = (Inr resp, s') \<and> envelope False False resp"
  by (cases s)
    (simp add: transactions_GET_def transactions_try_def prim_eqs respond_failure_eq body_status_literal eff_defs Let_def
      envelope_unauthorized envelope_failure split: sum.splits, simp_all add: envelope_def json_response_def)

lemma impersonate_envelope:
  "\<exists>resp s'. impersonate_POST P env request s = (Inr resp, s') \<and> envelope False False resp"
  by (cases s)
    (simp add: impersonate_POST_def impersonate_try_def prim_eqs eff_defs Let_def
      envelope_unauthorized envelope_failure split: sum.splits, simp_all add: envelope_def json_response_def)

lemma envelope_summary: "envelope True False (summary_response rs)"
  by (simp add: summary_response_def summary_body_def Let_def envelope_def json_response_def)

lemma clear_database_envelope:
  "\<exists>resp s'. clear_database_POST P env request s = (Inr resp, s') \<and> envelope True False resp"
proof (cases "req_headers request ''admin-password'' = Some (expectedPassword env)")
  case True
  from clear_database_try_authorized [OF True, of P s]
  obtain rs s' where "clear_database_try P env request s = (Inr (summary_response rs), s')"
    by blast
  then have "clear_database_POST P env request s = (Inr (summary_response rs), s')"
    by (rule clear_database_POST_eq)
  then show ?thesis
    using envelope_summary by blast
next
  case False
  then have "clear_database_POST P env request s = (Inr unauthorized_response, s)"
    by (simp add: clear_database_POST_def clear_database_try_def try_catch_def eff_return_def eff_lift_def respond_eqs
        unauthorized_iff)
  then show ?thesis
    using envelope_unauthorized by blast
qed

lemma handle_envelope:
  "\<exists>resp s'. handle r P env request s = (Inr resp, s')
       \<and> envelope (r = ClearDatabase) (r = ApiRequests) resp"
proof (cases r)
  case AnomaliesClear
  then show ?thesis
    using table_clear_envelope [of anomalies_strings P env request s]
    by (simp add: handle_def anomalies_clear_DELETE_def)
next
  case TransactionsClear
  then show ?thesis
    using table_clear_envelope [of transactions_strings P env request s]
    by (simp add: handle_def transactions_clear_DELETE_def)
next
  case TransactionItemsClear
  then show ?thesis
    using table_clear_envelope [of transaction_items_strings P env request s]
    by (simp add: handle_def transaction_items_clear_DELETE_def)
next
  case SubmissionsClear
  then show ?thesis
    using table_clear_envelope [of submissions_strings P env request s]
    by (simp add: handle_def submissions_clear_DELETE_def)
next
  case IntegrationsClear
  then show ?thesis
    using integrations_clear_envelope [of P env request s] by (simp add: handle_def)
next
  case VectordbClear
  then show ?thesis
    using vectordb_clear_envelope [of P env request s] by (simp add: handle_def)
next
  case ClearDatabase
  then show ?thesis
    using clear_database_envelope [of P env request s] by (simp add: handle_def)
next
  case ApiRequests
  then show ?thesis
    using api_requests_envelope [of P env request s] by (simp add: handle_def)
next
  case (Transactions userId)
  then show ?thesis
    using transactions_envelope [of P env userId request s] by (simp add: handle_def)
next
  case Impersonate
  then show ?thesis
    using impersonate_envelope [of P env request s] by (simp add: handle_def)
qed

lemma envelopeD:
  assumes "envelope a d resp"
  shows "\<exists>fs b. json_body resp = JObj fs \<and> map_of fs ''success'' = Some (JBool b)
       \<and> (b \<longrightarrow> (map_of fs ''data'' \<noteq> None) = d)
       \<and> (\<not> b \<longrightarrow> (\<exists>e. map_of fs ''error'' = Some (JStr e))
              \<or> (a \<and> map_of fs ''error'' = None \<and> map_of fs ''summary'' \<noteq> None))"
proof -
  obtain fs where body: "json_body resp = JObj fs"
    using assms by (cases "json_body resp") (simp_all add: envelope_def)
  obtain v where sv: "map_of fs ''success'' = Some v"
    using assms body by (cases "map_of fs ''success''") (simp_all add: envelope_def)
  obtain b where v: "v = JBool b"
    using assms body sv by (cases v) (simp_all add: envelope_def)
  have rest: "if b then (map_of fs ''data'' \<noteq> None) = d
              else (case map_of fs ''error'' of
                       Some (JStr e) \<Rightarrow> True
                     | None \<Rightarrow> a \<and> map_of fs ''summary'' \<noteq> None
                     | _ \<Rightarrow> False)"
    using assms body sv v by (simp add: envelope_def)
  have t: "b \<longrightarrow> (map_of fs ''data'' \<noteq> None) = d"
    using rest by (cases b) simp_all
  have f: "\<not> b \<longrightarrow> (\<exists>e. map_of fs ''error'' = Some (JStr e))
              \<or> (a \<and> map_of fs ''error'' = None \<and> map_of fs ''summary'' \<noteq> None)"
  proof
    assume nb: "\<not> b"
    show "(\<exists>e. map_of fs ''error'' = Some (JStr e))
              \<or> (a \<and> map_of fs ''error'' = None \<and> map_of fs ''summary'' \<noteq> None)"
    proof (cases "map_of fs ''error''")
      case None
      with rest nb show ?thesis by simp
    next
      case (Some x)
      with rest nb show ?thesis by (cases x) simp_all
    qed
  qed
  from body sv v t f show ?thesis by blast
qed

text \<open>
  C6 (as amended). Every response of an API route is a JSON object with a boolean \<open>success\<close>
  field. A \<open>success: false\<close> response carries an \<open>error\<close> string, except the aggregate answer
  of clear-database, which carries \<open>message\<close>, \<open>results\<close> and \<open>summary\<close> and no \<open>error\<close>. A
  \<open>success: true\<close> response carries a \<open>data\<close> field exactly on the api-requests route; the
  other routes return their payload in fields of their own.
\<close>

theorem response_envelope:
  "\<exists>resp s' fs b. handle r P env request s = (Inr resp, s')
     \<and> json_body resp = JObj fs \<and> map_of fs ''success'' = Some (JBool b)
     \<and> (b \<longrightarrow> (map_of fs ''data'' \<noteq> None) = (r = ApiRequests))
     \<and> (\<not> b \<longrightarrow> (\<exists>e. map_of fs ''error'' = Some (JStr e))
            \<or> (r = ClearDatabase \<and> map_of fs ''error'' = None \<and> map_of fs ''summary'' \<noteq> None))"
proof -
  from handle_envelope [of r P env request s]
  obtain resp s' where run: "handle r P env request s = (Inr resp, s')"
    and env: "envelope (r = ClearDatabase) (r = ApiRequests) resp"
    by blast
  from envelopeD [OF env] run show ?thesis
    by blast
qed

lemma show_nat_0: "show_nat 0 = ''0''"
  by code_simp

lemma show_nat_3: "show_nat 3 = ''3''"
  by code_simp

lemma show_nat_6: "show_nat 6 = ''6''"
  by code_simp

lemma show_nat_503: "show_nat 503 = ''503''"
  by code_simp

lemma show_nat_3000: "show_nat 3000 = ''3000''"
  by code_simp

lemma six_Suc: "Suc (Suc (Suc (Suc (Suc (Suc 0))))) = 6"
  by simp

lemmas run_defs = clear_database_POST_def clear_database_try_def clear_step_def clear_request_def
  header_value_def initial_results_def set_success_def set_error_def summary_response_def summary_body_def
  results_json_def stub_platform_def admin_request_def unavailable_def accepted_def ok_def
  unauthorized_def expectedPassword_def env_or_def error_message_def json_response_def
  failure_response_def unauthorized_response_def

lemma anomalies_run_example:
  "handle AnomaliesClear (stub_platform (Inr accepted) (Inr \<lparr> pg_rowCount = Some 3 \<rparr>)) Map.empty
       (admin_request (Some ''admin123'')) (0, []) =
     (Inr \<lparr> http_status = 200,
          json_body = JObj
            [(''success'', JBool True),
             (''message'', JStr ''Anomaly flags cleared successfully. Removed 3 rows.''),
             (''timestamp'', JStr ''3000''),
             (''rowCount'', JNum 3)] \<rparr>,
      4, [Query ''DELETE FROM anomaly_flags'' None (Inr \<lparr> pg_rowCount = Some 3 \<rparr>)])"
  by (simp add: handle_def anomalies_clear_DELETE_def table_clear_DELETE_eq table_clear_try_eq
      anomalies_strings_def Let_def or_zero_def show_nat_3 show_nat_3000 run_defs)

lemma clear_database_503_example:
  "fst (clear_database_POST (stub_platform (Inr unavailable) (Inl NonError)) Map.empty
       (admin_request (Some ''admin123'')) (0, [])) =
     Inr \<lparr> http_status = 200,
          json_body = JObj
            [(''success'', JBool False),
             (''message'', JStr ''Cleared 0/6 database tables with some errors''),
             (''results'', JObj
                [(''vectordb'', JObj [(''success'', JBool False), (''error'', JStr ''503: Service Unavailable'')]),
                 (''transactions'', JObj [(''success'', JBool False), (''error'', JStr ''503: Service Unavailable'')]),
                 (''transactionItems'', JObj [(''success'', JBool False), (''error'', JStr ''503: Service Unavailable'')]),
                 (''submissions'', JObj [(''success'', JBool False), (''error'', JStr ''503: Service Unavailable'')]),
                 (''anomalies'', JObj [(''success'', JBool False), (''error'', JStr ''503: Service Unavailable'')]),
                 (''integrations'', JObj [(''success'', JBool False), (''error'', JStr ''503: Service Unavailable'')])]),
             (''summary'', JObj [(''cleared'', JNum 0), (''total'', JNum 6), (''errors'', JNum 6)])] \<rparr>"
  by (simp add: run_defs prim_eqs eff_defs Let_def six_Suc show_nat_0 show_nat_6 show_nat_503)

theorem response_envelope_counterexample:
  "fst (clear_database_POST (stub_platform (Inr unavailable) (Inl NonError)) Map.empty
       (admin_request (Some ''admin123'')) (0, [])) =
     Inr \<lparr> http_status = 200,
          json_body = JObj
            [(''success'', JBool False),
             (''message'', JStr ''Cleared 0/6 database tables with some errors''),
             (''results'', JObj
                [(''vectordb'', JObj [(''success'', JBool False), (''error'', JStr ''503: Service Unavailable'')]),
                 (''transactions'', JObj [(''success'', JBool False), (''error'', JStr ''503: Service Unavailable'')]),
                 (''transactionItems'', JObj [(''success'', JBool False), (''error'', JStr ''503: Service Unavailable'')]),
                 (''submissions'', JObj [(''success'', JBool False), (''error'', JStr ''503: Service Unavailable'')]),
                 (''anomalies'', JObj [(''success'', JBool False), (''error'', JStr ''503: Service Unavailable'')]),
                 (''integrations'', JObj [(''success'', JBool False), (''error'', JStr ''503: Service Unavailable'')])]),
             (''summary'', JObj [(''cleared'', JNum 0), (''total'', JNum 6), (''errors'', JNum 6)])] \<rparr>
   \<and> get_prop (json_body \<lparr> http_status = 200,
          json_body = JObj
            [(''success'', JBool False),
             (''message'', JStr ''Cleared 0/6 database tables with some errors''),
             (''results'', JObj
                [(''vectordb'', JObj [(''success'', JBool False), (''error'', JStr ''503: Service Unavailable'')]),
                 (''transactions'', JObj [(''success'', JBool False), (''error'', JStr ''503: Service Unavailable'')]),
                 (''transactionItems'', JObj [(''success'', JBool False), (''error'', JStr ''503: Service Unavailable'')]),
                 (''submissions'', JObj [(''success'', JBool False), (''error'', JStr ''503: Service Unavailable'')]),
                 (''anomalies'', JObj [(''success'', JBool False), (''error'', JStr ''503: Service Unavailable'')]),
                 (''integrations'', JObj [(''success'', JBool False), (''error'', JStr ''503: Service Unavailable'')])]),
             (''summary'', JObj [(''cleared'', JNum 0), (''total'', JNum 6), (''errors'', JNum 6)])] \<rparr>) ''error'' = Inr JUndefined
   \<and> fst (handle AnomaliesClear (stub_platform (Inr accepted) (Inr \<lparr> pg_rowCount = Some 3 \<rparr>)) Map.empty
       (admin_request (Some ''admin123'')) (0, [])) =
     Inr \<lparr> http_status = 200,
          json_body = JObj
            [(''success'', JBool True),
             (''message'', JStr ''Anomaly flags cleared successfully. Removed 3 rows.''),
             (''timestamp'', JStr ''3000''),
             (''rowCount'', JNum 3)] \<rparr>
   \<and> get_prop (json_body \<lparr> http_status = 200,
          json_body = JObj
            [(''success'', JBool True),
             (''message'', JStr ''Anomaly flags cleared successfully. Removed 3 rows.''),
             (''timestamp'', JStr ''3000''),
             (''rowCount'', JNum 3)] \<rparr>) ''data'' = Inr JUndefined"
  by (simp add: clear_database_503_example anomalies_run_example own_prop_def)

lemma api_requests_run_example:
  "handle ApiRequests (stub_platform (Inr accepted) (Inl NonError)) Map.empty (admin_request None) (0, []) =
     (Inr \<lparr> http_status = 200,
          json_body = JObj [(''success'', JBool True), (''data'', JObj []), (''timestamp'', JStr ''1000'')] \<rparr>,
      2, [Fetch \<lparr> fr_url = ''https://api.cooler.dev/admin/api-requests/recent?limit=100'',
                  fr_method = ''GET'', fr_headers = bearer_headers, fr_timeout = None \<rparr> (Inr accepted),
          ReadJson (Inr (JObj []))])"
  by (simp add: handle_def api_requests_GET_def api_requests_try_def api_requests_url_def api_base_def
      nonempty_or_def prim_eqs eff_defs Let_def show_nat_1000 run_defs)

lemma anomalies_failure_example:
  "handle AnomaliesClear (stub_platform (Inr accepted) (Inl (Error ''connection refused''))) Map.empty
       (admin_request (Some ''admin123'')) (0, []) =
     (Inr \<lparr> http_status = 500,
          json_body = JObj [(''success'', JBool False), (''error'', JStr ''Failed to clear anomaly flags''),
                            (''details'', JStr ''connection refused'')] \<rparr>,
      2, [Query ''DELETE FROM anomaly_flags'' None (Inl (Error ''connection refused''))])"
  by (simp add: handle_def anomalies_clear_DELETE_def table_clear_DELETE_eq table_clear_try_eq
      anomalies_strings_def Let_def run_defs)

theorem response_envelope_witness:
  "handle ApiRequests (stub_platform (Inr accepted) (Inl NonError)) Map.empty (admin_request None) (0, []) =
     (Inr \<lparr> http_status = 200,
          json_body = JObj [(''success'', JBool True), (''data'', JObj []), (''timestamp'', JStr ''1000'')] \<rparr>,
      2, [Fetch \<lparr> fr_url = ''https://api.cooler.dev/admin/api-requests/recent?limit=100'',
                  fr_method = ''GET'', fr_headers = bearer_headers, fr_timeout = None \<rparr> (Inr accepted),
          ReadJson (Inr (JObj []))])
   \<and> (map_of [(''success'', JBool True), (''data'', JObj []), (''timestamp'', JStr ''1000'')] ''data'' \<noteq> None)
        = (ApiRequests = ApiRequests)
   \<and> handle AnomaliesClear (stub_platform (Inr accepted) (Inl (Error ''connection refused''))) Map.empty
       (admin_request (Some ''admin123'')) (0, []) =
     (Inr \<lparr> http_status = 500,
          json_body = JObj [(''success'', JBool False), (''error'', JStr ''Failed to clear anomaly flags''),
                            (''details'', JStr ''connection refused'')] \<rparr>,
      2, [Query ''DELETE FROM anomaly_flags'' None (Inl (Error ''connection refused''))])
   \<and> (\<exists>e. map_of [(''success'', JBool False), (''error'', JStr ''Failed to clear anomaly flags''),
                    (''details'', JStr ''connection refused'')] ''error'' = Some (JStr e))"
proof -
  from response_envelope [of ApiRequests "stub_platform (Inr accepted) (Inl NonError)" Map.empty
      "admin_request None" "(0, [])"]
  obtain resp s' fs b where
    "handle ApiRequests (stub_platform (Inr accepted) (Inl NonError)) Map.empty (admin_request None) (0, [])
       = (Inr resp, s')"
    "json_body resp = JObj fs" "map_of fs ''success'' = Some (JBool b)"
    "b \<longrightarrow> (map_of fs ''data'' \<noteq> None) = (ApiRequests = ApiRequests)"
    by blast
  then have one: "(map_of [(''success'', JBool True), (''data'', JObj []), (''timestamp'', JStr ''1000'')] ''data'' \<noteq> None)
        = (ApiRequests = ApiRequests)"
    by (auto simp: api_requests_run_example)
  from response_envelope [of AnomaliesClear "stub_platform (Inr accepted) (Inl (Error ''connection refused''))"
      Map.empty "admin_request (Some ''admin123'')" "(0, [])"]
  obtain resp s' fs b where
    "handle AnomaliesClear (stub_platform (Inr accepted) (Inl (Error ''connection refused''))) Map.empty
       (admin_request (Some ''admin123'')) (0, []) = (Inr resp, s')"
    "json_body resp = JObj fs" "map_of fs ''success'' = Some (JBool b)"
    "\<not> b \<longrightarrow> (\<exists>e. map_of fs ''error'' = Some (JStr e))
            \<or> (AnomaliesClear = ClearDatabase \<and> map_of fs ''error'' = None \<and> map_of fs ''summary'' \<noteq> None)"
    by blast
  then have two: "\<exists>e. map_of [(''success'', JBool False), (''error'', JStr ''Failed to clear anomaly flags''),
                    (''details'', JStr ''connection refused'')] ''error'' = Some (JStr e)"
    by (auto simp: anomalies_failure_example)
  show ?thesis
    by (rule conjI [OF api_requests_run_example conjI [OF one conjI [OF anomalies_failure_example two]]])
qed

subsection \<open>The error-handling pattern\<close>

lemma table_clear_pattern:
  "\<exists>new. snd (snd (table_clear_DELETE cs P env request (w, tr))) = tr @ new
       \<and> failure_pattern (fst (table_clear_DELETE cs P env request (w, tr))) new"
  by (simp add: table_clear_DELETE_eq table_clear_try_eq Let_def split: sum.splits)
     (auto simp: failure_pattern_def threw_def)

lemma integrations_clear_pattern:
  "\<exists>new. snd (snd (integrations_clear_DELETE P env request (w, tr))) = tr @ new
       \<and> failure_pattern (fst (integrations_clear_DELETE P env request (w, tr))) new"
  by (simp add: integrations_clear_DELETE_eq integrations_clear_try_eq Let_def split: sum.splits)
     (auto simp: failure_pattern_def threw_def)

lemma vectordb_clear_pattern:
  "\<exists>new. snd (snd (vectordb_clear_DELETE P env request (w, tr))) = tr @ new
       \<and> failure_pattern (fst (vectordb_clear_DELETE P env request (w, tr))) new"
  by (simp add: vectordb_clear_DELETE_def vectordb_clear_try_def prim_eqs respond_failure_eq body_status_literal eff_defs Let_def
        split: sum.splits)
     (auto simp: failure_pattern_def threw_def)

lemma api_requests_pattern:
  "\<exists>new. snd (snd (api_requests_GET P env request (w, tr))) = tr @ new
       \<and> failure_pattern (fst (api_requests_GET P env request (w, tr))) new"
  by (simp add: api_requests_GET_def api_requests_try_def prim_eqs respond_failure_eq body_status_literal eff_defs Let_def
        split: sum.splits)
     (auto simp: failure_pattern_def threw_def)

lemma transactions_pattern:
  "\<exists>new. snd (snd (transactions_GET P env userId request (w, tr))) = tr @ new
       \<and> failure_pattern (fst (transactions_GET P env userId request (w, tr))) new"
  by (simp add: transactions_GET_def transactions_try_def prim_eqs respond_failure_eq body_status_literal eff_defs Let_def
        split: sum.splits)
     (auto simp: failure_pattern_def threw_def)

lemma impersonate_pattern:
  "\<exists>new. snd (snd (impersonate_POST P env request (w, tr))) = tr @ new
       \<and> failure_pattern (fst (impersonate_POST P env request (w, tr))) new"
  by (simp add: impersonate_POST_def impersonate_try_def prim_eqs eff_defs Let_def
        split: sum.splits)
     (auto simp: failure_pattern_def threw_def)

lemma clear_database_trace:
  "\<exists>new. snd (snd (clear_database_POST P env request s)) = snd s @ new"
proof (cases "req_headers request ''admin-password'' = Some (expectedPassword env)")
  case True
  from clear_database_try_authorized [OF True, of P s]
  obtain rs s' new where "clear_database_try P env request s = (Inr (summary_response rs), s')"
    and "snd s' = snd s @ new"
    by blast
  then show ?thesis
    using clear_database_POST_eq [of P env request s "summary_response rs" s'] by simp
next
  case False
  then have "clear_database_POST P env request s = (Inr unauthorized_response, s)"
    by (simp add: clear_database_POST_def clear_database_try_def try_catch_def eff_return_def eff_lift_def respond_eqs
        unauthorized_iff)
  then show ?thesis by simp
qed

lemma handle_try_catch:
  "handle r P env request =
     try_catch (route_try r P env request)
       (\<lambda>error. eff_return (failure_response (caught_error r)
                   (JStr (error_message ''Unknown error'' error)) 500))"
  by (cases r)
    (simp_all add: handle_def route_try_def caught_error_def
      anomalies_clear_DELETE_def transactions_clear_DELETE_def transaction_items_clear_DELETE_def
      submissions_clear_DELETE_def table_clear_DELETE_def integrations_clear_DELETE_def
      vectordb_clear_DELETE_def clear_database_POST_def api_requests_GET_def transactions_GET_def
      impersonate_POST_def anomalies_strings_def transactions_strings_def
      transaction_items_strings_def submissions_strings_def eff_lift_def eff_return_def
      respond_failure_500)

lemma handle_caught:
  assumes "handle r P env request s = (res, s')"
    and "fst (route_try r P env request s) = Inl e"
  shows "res = Inr (failure_response (caught_error r) (JStr (error_message ''Unknown error'' e)) 500)"
  using assms
  by (cases "route_try r P env request s") (auto simp: handle_try_catch try_catch_def eff_return_def eff_lift_def respond_eqs)

lemma handle_pattern:
  assumes "r \<noteq> ClearDatabase"
  shows "\<exists>new. snd (snd (handle r P env request (w, tr))) = tr @ new
       \<and> failure_pattern (fst (handle r P env request (w, tr))) new"
proof (cases r)
  case AnomaliesClear
  then show ?thesis
    using table_clear_pattern [of anomalies_strings P env request w tr]
    by (simp add: handle_def anomalies_clear_DELETE_def)
next
  case TransactionsClear
  then show ?thesis
    using table_clear_pattern [of transactions_strings P env request w tr]
    by (simp add: handle_def transactions_clear_DELETE_def)
next
  case TransactionItemsClear
  then show ?thesis
    using table_clear_pattern [of transaction_items_strings P env request w tr]
    by (simp add: handle_def transaction_items_clear_DELETE_def)
next
  case SubmissionsClear
  then show ?thesis
    using table_clear_pattern [of submissions_strings P env request w tr]
    by (simp add: handle_def submissions_clear_DELETE_def)
next
  case IntegrationsClear
  then show ?thesis
    using integrations_clear_pattern [of P env request w tr] by (simp add: handle_def)
next
  case VectordbClear
  then show ?thesis
    using vectordb_clear_pattern [of P env request w tr] by (simp add: handle_def)
next
  case ClearDatabase
  with assms show ?thesis by simp
next
  case ApiRequests
  then show ?thesis
    using api_requests_pattern [of P env request w tr] by (simp add: handle_def)
next
  case (Transactions userId)
  then show ?thesis
    using transactions_pattern [of P env userId request w tr] by (simp add: handle_def)
next
  case Impersonate
  then show ?thesis
    using impersonate_pattern [of P env request w tr] by (simp add: handle_def)
qed

text \<open>
  C3 (as amended). Every route handler wraps its logic in a try/catch: an exception that
  leaves the try block is answered with status 500 and \<open>{ success: false, error, details }\<close>,
  \<open>details\<close> being the message of the exception. For every route handler other than
  clear-database: when any call the handler makes throws (a database statement, an HTTP
  request, the reading of a body, the signing of the token), the response is
  \<open>{ success: false, error, details }\<close> with status 500; and when no call throws and its HTTP
  request comes back with a status that is not ok and that a response with a body may carry
  (300 to 599, other than 304), the response is \<open>{ success: false, error, details }\<close> with
  that status. (clear-database instead records the failure of each of its six requests in
  \<open>results\<close> and answers 200 with the summary.)
\<close>

theorem error_handling_pattern:
  assumes "handle r P env request s = (res, s')"
  shows "\<exists>new. snd s' = snd s @ new
     \<and> (\<forall>e. fst (route_try r P env request s) = Inl e \<longrightarrow>
           res = Inr (failure_response (caught_error r) (JStr (error_message ''Unknown error'' e)) 500))
     \<and> (r \<noteq> ClearDatabase \<longrightarrow>
           ((\<exists>c \<in> set new. threw c) \<longrightarrow>
              (\<exists>err details. res = Inr (failure_response err (JStr details) 500)))
         \<and> ((\<forall>c \<in> set new. \<not> threw c) \<longrightarrow>
              (\<forall>rq u. Fetch rq (Inr u) \<in> set new \<and> \<not> ok u \<and> body_status (status u) \<longrightarrow>
                 (\<exists>err details. res = Inr (failure_response err (JStr details) (status u))))))"
proof -
  obtain w tr where s: "s = (w, tr)" by (cases s)
  have caught: "\<forall>e. fst (route_try r P env request s) = Inl e \<longrightarrow>
           res = Inr (failure_response (caught_error r) (JStr (error_message ''Unknown error'' e)) 500)"
    using handle_caught [OF assms] by blast
  show ?thesis
  proof (cases "r = ClearDatabase")
    case True
    from clear_database_trace [of P env request s]
    obtain new where "snd s' = snd s @ new"
      using assms True by (auto simp: handle_def)
    with caught True show ?thesis by blast
  next
    case False
    from handle_pattern [OF False, of P env request w tr]
    obtain new where n: "snd s' = snd s @ new" and p: "failure_pattern res new"
      using assms by (auto simp: s)
    from p have "((\<exists>c \<in> set new. threw c) \<longrightarrow>
              (\<exists>err details. res = Inr (failure_response err (JStr details) 500)))
         \<and> ((\<forall>c \<in> set new. \<not> threw c) \<longrightarrow>
              (\<forall>rq u. Fetch rq (Inr u) \<in> set new \<and> \<not> ok u \<and> body_status (status u) \<longrightarrow>
                 (\<exists>err details. res = Inr (failure_response err (JStr details) (status u)))))"
      unfolding failure_pattern_def .
    with n caught show ?thesis by blast
  qed
qed

lemma api_requests_throw_example:
  "handle ApiRequests (stub_platform (Inl (Error ''fetch failed'')) (Inl NonError)) Map.empty (admin_request None) (0, []) =
     (Inr (failure_response ''Failed to fetch API requests'' (JStr ''fetch failed'') 500),
      1, [Fetch \<lparr> fr_url = ''https://api.cooler.dev/admin/api-requests/recent?limit=100'',
                  fr_method = ''GET'', fr_headers = bearer_headers, fr_timeout = None \<rparr> (Inl (Error ''fetch failed''))])"
  by (simp add: handle_def api_requests_GET_def api_requests_try_def api_requests_url_def api_base_def
      nonempty_or_def prim_eqs eff_defs Let_def run_defs)

lemma api_requests_try_throw_example:
  "fst (route_try ApiRequests (stub_platform (Inl (Error ''fetch failed'')) (Inl NonError)) Map.empty (admin_request None) (0, [])) = Inl (Error ''fetch failed'')"
  by (simp add: route_try_def api_requests_try_def api_requests_url_def api_base_def
      nonempty_or_def prim_eqs eff_defs Let_def run_defs)

lemma api_requests_503_example:
  "handle ApiRequests (stub_platform (Inr unavailable) (Inl NonError)) Map.empty (admin_request None) (0, []) =
     (Inr (failure_response ''Failed to fetch API requests: 503'' (JStr ''Service Unavailable'') 503),
      1, [Fetch \<lparr> fr_url = ''https://api.cooler.dev/admin/api-requests/recent?limit=100'',
                  fr_method = ''GET'', fr_headers = bearer_headers, fr_timeout = None \<rparr> (Inr unavailable), ReadText (Inr ''Service Unavailable'')])"
  by (simp add: handle_def api_requests_GET_def api_requests_try_def api_requests_url_def api_base_def
      nonempty_or_def prim_eqs respond_failure_eq body_status_def eff_defs Let_def show_nat_503 run_defs)

text \<open>A status that cannot be mirrored: \<open>NextResponse.json\<close> throws on 304, and the catch
  block answers 500.\<close>

lemma show_nat_304: "show_nat 304 = ''304''"
  by code_simp

lemma api_requests_304_example:
  "handle ApiRequests (stub_platform (Inr not_modified) (Inl NonError)) Map.empty (admin_request None) (0, []) =
     (Inr (failure_response ''Failed to fetch API requests''
             (JStr ''Response constructor: Invalid response status code 304'') 500),
      1, [Fetch \<lparr> fr_url = ''https://api.cooler.dev/admin/api-requests/recent?limit=100'',
                  fr_method = ''GET'', fr_headers = bearer_headers, fr_timeout = None \<rparr> (Inr not_modified),
          ReadText (Inr [])])"
  by (simp add: handle_def api_requests_GET_def api_requests_try_def api_requests_url_def api_base_def
      nonempty_or_def prim_eqs respond_failure_eq body_status_def status_error_def eff_defs Let_def
      show_nat_304 not_modified_def run_defs)

theorem error_handling_pattern_witness:
  "handle ApiRequests (stub_platform (Inl (Error ''fetch failed'')) (Inl NonError)) Map.empty (admin_request None) (0, []) =
     (Inr (failure_response ''Failed to fetch API requests'' (JStr ''fetch failed'') 500),
      1, [Fetch \<lparr> fr_url = ''https://api.cooler.dev/admin/api-requests/recent?limit=100'',
                  fr_method = ''GET'', fr_headers = bearer_headers, fr_timeout = None \<rparr> (Inl (Error ''fetch failed''))])
   \<and> fst (route_try ApiRequests (stub_platform (Inl (Error ''fetch failed'')) (Inl NonError)) Map.empty (admin_request None) (0, [])) = Inl (Error ''fetch failed'')
   \<and> Inr (failure_response ''Failed to fetch API requests'' (JStr ''fetch failed'') 500) =
        (Inr (failure_response (caught_error ApiRequests)
               (JStr (error_message ''Unknown error'' (Error ''fetch failed''))) 500) :: js_exn + next_response)
   \<and> threw (Fetch \<lparr> fr_url = ''https://api.cooler.dev/admin/api-requests/recent?limit=100'',
                  fr_method = ''GET'', fr_headers = bearer_headers, fr_timeout = None \<rparr> (Inl (Error ''fetch failed'')))
   \<and> handle ApiRequests (stub_platform (Inr unavailable) (Inl NonError)) Map.empty (admin_request None) (0, []) =
     (Inr (failure_response ''Failed to fetch API requests: 503'' (JStr ''Service Unavailable'') 503),
      1, [Fetch \<lparr> fr_url = ''https://api.cooler.dev/admin/api-requests/recent?limit=100'',
                  fr_method = ''GET'', fr_headers = bearer_headers, fr_timeout = None \<rparr> (Inr unavailable), ReadText (Inr ''Service Unavailable'')])
   \<and> \<not> ok unavailable
   \<and> body_status (status unavailable)
   \<and> (\<exists>err details.
         (Inr (failure_response ''Failed to fetch API requests: 503'' (JStr ''Service Unavailable'') 503)
            :: js_exn + next_response)
         = Inr (failure_response err (JStr details) (status unavailable)))"
proof -
  note run1 = api_requests_throw_example
  note try1 = api_requests_try_throw_example
  note run2 = api_requests_503_example
  from error_handling_pattern [OF run1]
  have caught: "Inr (failure_response ''Failed to fetch API requests'' (JStr ''fetch failed'') 500) =
        (Inr (failure_response (caught_error ApiRequests)
               (JStr (error_message ''Unknown error'' (Error ''fetch failed''))) 500) :: js_exn + next_response)"
    using try1 by blast
  have t: "threw (Fetch \<lparr> fr_url = ''https://api.cooler.dev/admin/api-requests/recent?limit=100'',
                  fr_method = ''GET'', fr_headers = bearer_headers, fr_timeout = None \<rparr> (Inl (Error ''fetch failed'')))"
    by (simp add: threw_def)
  have nok: "\<not> ok unavailable"
    by (simp add: ok_def unavailable_def)
  from error_handling_pattern [OF run2]
  obtain new where n: "snd (1::nat, [Fetch \<lparr> fr_url = ''https://api.cooler.dev/admin/api-requests/recent?limit=100'',
                  fr_method = ''GET'', fr_headers = bearer_headers, fr_timeout = None \<rparr> (Inr unavailable), ReadText (Inr ''Service Unavailable'')])
        = snd (0::nat, []::call list) @ new"
    and p: "(\<forall>c \<in> set new. \<not> threw c) \<longrightarrow>
              (\<forall>rq u. Fetch rq (Inr u) \<in> set new \<and> \<not> ok u \<and> body_status (status u) \<longrightarrow>
                 (\<exists>err details. (Inr (failure_response ''Failed to fetch API requests: 503''
                      (JStr ''Service Unavailable'') 503) :: js_exn + next_response)
                    = Inr (failure_response err (JStr details) (status u))))"
    by blast
  from n have new: "new = [Fetch \<lparr> fr_url = ''https://api.cooler.dev/admin/api-requests/recent?limit=100'',
                  fr_method = ''GET'', fr_headers = bearer_headers, fr_timeout = None \<rparr> (Inr unavailable), ReadText (Inr ''Service Unavailable'')]"
    by simp
  have quiet: "\<forall>c \<in> set new. \<not> threw c"
    by (simp add: new threw_def)
  have mem: "Fetch \<lparr> fr_url = ''https://api.cooler.dev/admin/api-requests/recent?limit=100'',
                  fr_method = ''GET'', fr_headers = bearer_headers, fr_timeout = None \<rparr> (Inr unavailable) \<in> set new"
    by (simp add: new)
  have bs: "body_status (status unavailable)"
    by (simp add: body_status_def unavailable_def)
  from p quiet mem nok bs
  have mirrored: "\<exists>err details.
         (Inr (failure_response ''Failed to fetch API requests: 503'' (JStr ''Service Unavailable'') 503)
            :: js_exn + next_response)
         = Inr (failure_response err (JStr details) (status unavailable))"
    by blast
  show ?thesis
    by (rule conjI [OF run1 conjI [OF try1 conjI [OF caught conjI [OF t conjI [OF run2
          conjI [OF nok conjI [OF bs mirrored]]]]]]])
qed

theorem error_handling_pattern_counterexample:
  "clear_database_POST (stub_platform (Inl (Error ''fetch failed'')) (Inl NonError)) Map.empty (admin_request (Some ''admin123'')) (0, []) =
     (Inr \<lparr> http_status = 200,
          json_body = JObj
            [(''success'', JBool False),
             (''message'', JStr ''Cleared 0/6 database tables with some errors''),
             (''results'', JObj
                [(''vectordb'', JObj [(''success'', JBool False), (''error'', JStr ''fetch failed'')]),
                 (''transactions'', JObj [(''success'', JBool False), (''error'', JStr ''fetch failed'')]),
                 (''transactionItems'', JObj [(''success'', JBool False), (''error'', JStr ''fetch failed'')]),
                 (''submissions'', JObj [(''success'', JBool False), (''error'', JStr ''fetch failed'')]),
                 (''anomalies'', JObj [(''success'', JBool False), (''error'', JStr ''fetch failed'')]),
                 (''integrations'', JObj [(''success'', JBool False), (''error'', JStr ''fetch failed'')])]),
             (''summary'', JObj [(''cleared'', JNum 0), (''total'', JNum 6), (''errors'', JNum 6)])] \<rparr>,
      6, [Fetch (clear_request ''http://localhost:3000'' ''/api/vectordb/clear'' ''admin123'') (Inl (Error ''fetch failed'')),
          Fetch (clear_request ''http://localhost:3000'' ''/api/transactions/clear'' ''admin123'') (Inl (Error ''fetch failed'')),
          Fetch (clear_request ''http://localhost:3000'' ''/api/transaction-items/clear'' ''admin123'') (Inl (Error ''fetch failed'')),
          Fetch (clear_request ''http://localhost:3000'' ''/api/submissions/clear'' ''admin123'') (Inl (Error ''fetch failed'')),
          Fetch (clear_request ''http://localhost:3000'' ''/api/anomalies/clear'' ''admin123'') (Inl (Error ''fetch failed'')),
          Fetch (clear_request ''http://localhost:3000'' ''/api/integrations/clear'' ''admin123'') (Inl (Error ''fetch failed''))])
   \<and> threw (Fetch (clear_request ''http://localhost:3000'' ''/api/vectordb/clear'' ''admin123'')
               (Inl (Error ''fetch failed'')))
   \<and> get_prop (json_body \<lparr> http_status = 200,
          json_body = JObj
            [(''success'', JBool False),
             (''message'', JStr ''Cleared 0/6 database tables with some errors''),
             (''results'', JObj
                [(''vectordb'', JObj [(''success'', JBool False), (''error'', JStr ''fetch failed'')]),
                 (''transactions'', JObj [(''success'', JBool False), (''error'', JStr ''fetch failed'')]),
                 (''transactionItems'', JObj [(''success'', JBool False), (''error'', JStr ''fetch failed'')]),
                 (''submissions'', JObj [(''success'', JBool False), (''error'', JStr ''fetch failed'')]),
                 (''anomalies'', JObj [(''success'', JBool False), (''error'', JStr ''fetch failed'')]),
                 (''integrations'', JObj [(''success'', JBool False), (''error'', JStr ''fetch failed'')])]),
             (''summary'', JObj [(''cleared'', JNum 0), (''total'', JNum 6), (''errors'', JNum 6)])] \<rparr>) ''error'' = Inr JUndefined
   \<and> get_prop (json_body \<lparr> http_status = 200,
          json_body = JObj
            [(''success'', JBool False),
             (''message'', JStr ''Cleared 0/6 database tables with some errors''),
             (''results'', JObj
                [(''vectordb'', JObj [(''success'', JBool False), (''error'', JStr ''fetch failed'')]),
                 (''transactions'', JObj [(''success'', JBool False), (''error'', JStr ''fetch failed'')]),
                 (''transactionItems'', JObj [(''success'', JBool False), (''error'', JStr ''fetch failed'')]),
                 (''submissions'', JObj [(''success'', JBool False), (''error'', JStr ''fetch failed'')]),
                 (''anomalies'', JObj [(''success'', JBool False), (''error'', JStr ''fetch failed'')]),
                 (''integrations'', JObj [(''success'', JBool False), (''error'', JStr ''fetch failed'')])]),
             (''summary'', JObj [(''cleared'', JNum 0), (''total'', JNum 6), (''errors'', JNum 6)])] \<rparr>) ''details'' = Inr JUndefined"
  by (simp add: run_defs prim_eqs eff_defs Let_def six_Suc show_nat_0 show_nat_6 threw_def own_prop_def)

end
